theory Spec2Isabelle
  imports Complex_Main
begin

section \<open>The environment of a build\<close>

text \<open>
  The package \<open>dmg\<close> builds a disk image by calling the operating system and the
  \<open>hdiutil\<close> collaborator. Every such call is a value of \<open>call\<close>; the environment
  answers a call in a world state \<open>'w\<close> with a \<open>reply\<close> and a new world state. The
  model threads the world and the list of calls made so far, each with its reply (the trace),
  through every function, so that the order of the effects of the Go code is the order of the trace.
\<close>

type_synonym path = string

datatype arg = Str string | Num int

datatype call =
    MkdirTemp string string
  | MkdirAll path
  | RemoveAll path
  | Remove path
  | Rename path path
  | Stat path
  | ReadDir path
  | OpenFile path
  | CreateFile path
  | CopyBuffer path path
  | OsLink path path
  | OsSymlink path path
  | Attach path path
  | Detach path
  | HdiutilInfo
  | HdiutilCreate string path string path
  | HdiutilCreateWithSize string path string path int
  | HdiutilConvert path string path
  | Exec string "string list"
  | DSStoreWrite path
  | WriteFile path
  | Lstat path
  | Glob string
  | UnixNano
  | Printf string "string list"
  | Fprintf string "arg list"

datatype reply = Done string | Failed string

type_synonym 'w env = "call \<Rightarrow> 'w \<Rightarrow> reply \<times> 'w"

type_synonym trace = "(call \<times> reply) list"

type_synonym 'w st = "'w \<times> trace"

definition do_call :: "'w env \<Rightarrow> call \<Rightarrow> 'w st \<Rightarrow> reply \<times> 'w st" where
  "do_call env c s =
     (case env c (fst s) of (r, w') \<Rightarrow> (r, (w', snd s @ [(c, r)])))"

text \<open>A call whose result the code discards (\<open>defer os.RemoveAll(dir)\<close>, \<open>fmt.Printf\<close>).\<close>

definition do_call_ignored :: "'w env \<Rightarrow> call \<Rightarrow> 'w st \<Rightarrow> 'w st" where
  "do_call_ignored env c s = snd (do_call env c s)"

section \<open>Strings and paths of the Go library\<close>

text \<open>\<open>strings.HasSuffix\<close>.\<close>

definition HasSuffix :: "string \<Rightarrow> string \<Rightarrow> bool" where
  "HasSuffix s suffix =
     (length suffix \<le> length s \<and> drop (length s - length suffix) s = suffix)"

text \<open>\<open>strings.HasPrefix\<close> and \<open>strings.Contains\<close>.\<close>

definition HasPrefix :: "string \<Rightarrow> string \<Rightarrow> bool" where
  "HasPrefix s p = (take (length p) s = p)"

fun Contains :: "string \<Rightarrow> string \<Rightarrow> bool" where
  "Contains [] sub = (sub = [])"
| "Contains (c # cs) sub = (HasPrefix (c # cs) sub \<or> Contains cs sub)"

text \<open>\<open>strings.Split(s, "\n")\<close>: the pieces between line feeds.\<close>

fun splitLines_acc :: "string \<Rightarrow> string \<Rightarrow> string list" where
  "splitLines_acc cur [] = [rev cur]"
| "splitLines_acc cur (c # cs) =
     (if c = CHR 0x0A then rev cur # splitLines_acc [] cs
      else splitLines_acc (c # cur) cs)"

definition SplitLines :: "string \<Rightarrow> string list" where
  "SplitLines s = splitLines_acc [] s"

text \<open>\<open>strings.Fields\<close>: the maximal runs of characters that are not white space.\<close>

definition isSpace :: "char \<Rightarrow> bool" where
  "isSpace c = (c = CHR '' '' \<or> c = CHR 0x09 \<or> c = CHR 0x0A \<or> c = CHR 0x0B
                \<or> c = CHR 0x0C \<or> c = CHR 0x0D)"

fun fields_acc :: "string \<Rightarrow> string \<Rightarrow> string list" where
  "fields_acc cur [] = (if cur = [] then [] else [rev cur])"
| "fields_acc cur (c # cs) =
     (if isSpace c then (if cur = [] then fields_acc [] cs else rev cur # fields_acc [] cs)
      else fields_acc (c # cur) cs)"

definition Fields :: "string \<Rightarrow> string list" where
  "Fields s = fields_acc [] s"

text \<open>
  \<open>filepath.Base\<close> on a system whose separator is \<open>/\<close>: the empty path gives \<open>.\<close>,
  trailing separators are dropped, the last element is returned, and a path of
  separators only gives \<open>/\<close>.
\<close>

definition stripTrailingSlashes :: "string \<Rightarrow> string" where
  "stripTrailingSlashes p = rev (dropWhile (\<lambda>c. c = CHR ''/'') (rev p))"

definition Base :: "path \<Rightarrow> string" where
  "Base p =
     (if p = [] then ''.''
      else (let q = stripTrailingSlashes p;
                e = rev (takeWhile (\<lambda>c. c \<noteq> CHR ''/'') (rev q))
            in if e = [] then ''/'' else e))"

text \<open>
  \<open>filepath.Dir\<close> and \<open>filepath.Join\<close>, without the final \<open>Clean\<close> of the Go library
  (no claim below depends on the normal form of a path): \<open>Dir\<close> drops the last element
  and the separators before it, \<open>Join\<close> puts a separator between two non-empty parts.
\<close>

definition Dir_of :: "path \<Rightarrow> path" where
  "Dir_of p =
     (let d = rev (dropWhile (\<lambda>c. c \<noteq> CHR ''/'') (rev p));
          d' = stripTrailingSlashes d
      in if d = [] then ''.'' else if d' = [] then ''/'' else d')"

definition Join :: "path \<Rightarrow> path \<Rightarrow> path" where
  "Join a b = (if a = [] then b else if b = [] then a else a @ ''/'' @ b)"

section \<open>The mount orchestrator\<close>

text \<open>
  \<open>forceDetachDMG\<close>: asks \<open>hdiutil info\<close> for the mounted volumes; when the command
  fails it returns at once. Otherwise every line of the output that contains the image
  path and \<open>/Volumes/\<close> and has at least three fields gets a \<open>Detach\<close> of its third
  field, whose result is discarded. The function returns nothing.
\<close>

fun forceDetach_lines :: "'w env \<Rightarrow> path \<Rightarrow> string list \<Rightarrow> 'w st \<Rightarrow> 'w st" where
  "forceDetach_lines env dmgPath [] s = s"
| "forceDetach_lines env dmgPath (line # rest) s =
     (if Contains line dmgPath \<and> Contains line ''/Volumes/'' then
        (let parts = Fields line in
         if length parts \<ge> 3 then
           forceDetach_lines env dmgPath rest (do_call_ignored env (Detach (parts ! 2)) s)
         else forceDetach_lines env dmgPath rest s)
      else forceDetach_lines env dmgPath rest s)"

definition forceDetachDMG :: "'w env \<Rightarrow> path \<Rightarrow> 'w st \<Rightarrow> 'w st" where
  "forceDetachDMG env dmgPath s =
     (case do_call env HdiutilInfo s of
        (Failed e, s1) \<Rightarrow> s1
      | (Done output, s1) \<Rightarrow> forceDetach_lines env dmgPath (SplitLines output) s1)"

text \<open>
  The deferred function of \<open>tmpMount\<close>: the primary \<open>Detach\<close>; when it fails, a warning
  is printed and \<open>forceDetachDMG\<close> runs. Nothing is returned.
\<close>

definition detachDeferred :: "'w env \<Rightarrow> path \<Rightarrow> path \<Rightarrow> 'w st \<Rightarrow> 'w st" where
  "detachDeferred env dmgPath mountPoint s =
     (case do_call env (Detach mountPoint) s of
        (Done x, s1) \<Rightarrow> s1
      | (Failed detachErr, s1) \<Rightarrow>
          forceDetachDMG env dmgPath
            (do_call_ignored env (Printf ''Warning: failed to detach DMG: %s\<newline>'' [detachErr]) s1))"

text \<open>
  \<open>tmpMount\<close>. A Go \<open>error\<close> is a \<open>string option\<close>: \<open>None\<close> is \<open>nil\<close>. The callback
  \<open>process\<close> takes the image path and the mount point and runs in the same world.
  The deferred calls run in reverse order of registration after the callback returned:
  first the detach, then the removal of the temporary directory.
\<close>

type_synonym 'w process = "path \<Rightarrow> path \<Rightarrow> 'w st \<Rightarrow> string option \<times> 'w st"

definition tmpMount :: "'w env \<Rightarrow> path \<Rightarrow> 'w process \<Rightarrow> 'w st \<Rightarrow> string option \<times> 'w st" where
  "tmpMount env dmgPath process s =
     (case do_call env (MkdirTemp '''' ''*-zapp-dmg'') s of
        (Failed e, s1) \<Rightarrow> (Some (''failed to create temporary directory: '' @ e), s1)
      | (Done tempDir, s1) \<Rightarrow>
          (let mountPoint = Join tempDir ''mount'' in
           case do_call env (Attach dmgPath mountPoint) s1 of
             (Failed e, s2) \<Rightarrow>
               (Some (''failed to attach DMG: '' @ e), do_call_ignored env (RemoveAll tempDir) s2)
           | (Done x, s2) \<Rightarrow>
               (case process dmgPath mountPoint s2 of
                  (r, s3) \<Rightarrow>
                    (r, do_call_ignored env (RemoveAll tempDir)
                          (detachDeferred env dmgPath mountPoint s3)))))"

section \<open>Configuration\<close>

text \<open>
  \<open>ItemType\<close> is a Go string type with three named constants; any other string is a
  value of the type too (a configuration read from JSON can hold it).
\<close>

type_synonym ItemType = string

definition Dir :: ItemType where "Dir = ''dir''"
definition File :: ItemType where "File = ''file''"
definition Link :: ItemType where "Link = ''link''"

record Item =
  X :: int
  Y :: int
  Type :: ItemType
  Path :: path

text \<open>
  Modelled from the spec: the format constants of package \<open>hdiutil\<close>, which is not under
  src/. The spec lists a writable format, a read-only format and two compressed formats
  (zlib-based, bzip2-based); their names are the ones the command line of
  \<open>src/cmd/dmg/dmg.go\<close> accepts. \<open>Format\<close> is a string type, and the empty string is the
  unset format.
\<close>

type_synonym Format = string

definition UDRO :: Format where "UDRO = ''UDRO''"
definition UDRW :: Format where "UDRW = ''UDRW''"
definition UDZO :: Format where "UDZO = ''UDZO''"
definition UDBZ :: Format where "UDBZ = ''UDBZ''"

text \<open>
  \<open>Config\<close>. The field \<open>LogWriter\<close> is an \<open>io.Writer\<close> that may be nil; only whether it
  is set matters to the control flow, what is written to it is a \<open>Fprintf\<close> call.
\<close>

record Config =
  FileName :: string
  Title :: string
  Icon :: string
  LabelSize :: int
  ContentsIconSize :: int
  WindowWidth :: int
  WindowHeight :: int
  Background :: string
  Contents :: "Item list"
  LogWriter :: bool
  Format :: Format
  CompressionLevel :: string
  UseHardLinks :: bool
  OptimizeAppSize :: bool

section \<open>Files and icons\<close>

text \<open>
  \<open>copyFile\<close>: open the source, make the directory of the destination, create the
  destination, copy; the first failure is returned. The deferred \<open>Close\<close> calls have no
  result and are left out.
\<close>

definition copyFile :: "'w env \<Rightarrow> path \<Rightarrow> path \<Rightarrow> 'w st \<Rightarrow> string option \<times> 'w st" where
  "copyFile env src dst s =
     (case do_call env (OpenFile src) s of
        (Failed e, s1) \<Rightarrow> (Some e, s1)
      | (Done x1, s1) \<Rightarrow>
     (case do_call env (MkdirAll (Dir_of dst)) s1 of
        (Failed e, s2) \<Rightarrow> (Some e, s2)
      | (Done x2, s2) \<Rightarrow>
     (case do_call env (CreateFile dst) s2 of
        (Failed e, s3) \<Rightarrow> (Some e, s3)
      | (Done x3, s3) \<Rightarrow>
     (case do_call env (CopyBuffer dst src) s3 of
        (Failed e, s4) \<Rightarrow> (Some e, s4)
      | (Done x4, s4) \<Rightarrow> (None, s4)))))"

text \<open>
  \<open>setDMGIcon\<close>. Where the Go code formats the error of an external command together
  with its combined output, the model keeps the error text of the reply.
\<close>

definition setDMGIcon :: "'w env \<Rightarrow> path \<Rightarrow> path \<Rightarrow> 'w st \<Rightarrow> string option \<times> 'w st" where
  "setDMGIcon env mountPoint iconPath s =
     (let iconFile = Join mountPoint ''.VolumeIcon.icns'' in
      case copyFile env iconPath iconFile s of
        (Some e, s1) \<Rightarrow> (Some (''failed to copy icon to mount point: '' @ e), s1)
      | (None, s1) \<Rightarrow>
     (case do_call env (Exec ''SetFile'' [''-c'', ''icnC'', iconFile]) s1 of
        (Failed e, s2) \<Rightarrow> (Some (''failed to set icon: '' @ e), s2)
      | (Done x2, s2) \<Rightarrow>
     (case do_call env (Exec ''SetFile'' [''-a'', ''C'', mountPoint]) s2 of
        (Failed e, s3) \<Rightarrow> (Some (''failed to set icon: '' @ e), s3)
      | (Done x3, s3) \<Rightarrow> (None, s3))))"

text \<open>
  \<open>setFileIcon\<close>: the body after the temporary directory was made; the deferred
  \<open>RemoveAll\<close> of that directory follows it on every path.
\<close>

definition setFileIcon_body :: "'w env \<Rightarrow> path \<Rightarrow> path \<Rightarrow> path \<Rightarrow> 'w st \<Rightarrow> string option \<times> 'w st" where
  "setFileIcon_body env tempDir dmgPath iconPath s =
     (let tempIconPath = Join tempDir ''icon.icns'' in
      case copyFile env iconPath tempIconPath s of
        (Some e, s1) \<Rightarrow> (Some (''failed to copy icon: '' @ e), s1)
      | (None, s1) \<Rightarrow>
     (case do_call env (Exec ''sips'' [''-i'', tempIconPath]) s1 of
        (Failed e, s2) \<Rightarrow> (Some (''failed to set icon: '' @ e), s2)
      | (Done x2, s2) \<Rightarrow>
     (case do_call env (Exec ''DeRez'' [''-only'', ''icns'', tempIconPath]) s2 of
        (Failed e, s3) \<Rightarrow> (Some (''failed to DeRez icon: '' @ e), s3)
      | (Done output, s3) \<Rightarrow>
     (let rsrcPath = Join tempDir ''icns.rsrc'' in
      case do_call env (WriteFile rsrcPath) s3 of
        (Failed e, s4) \<Rightarrow> (Some (''failed to write icns.rsrc: '' @ e), s4)
      | (Done x4, s4) \<Rightarrow>
     (case do_call env (Exec ''Rez'' [''-append'', rsrcPath, ''-o'', dmgPath]) s4 of
        (Failed e, s5) \<Rightarrow> (Some (''failed to append icns.rsrc: '' @ e), s5)
      | (Done x5, s5) \<Rightarrow>
     (case do_call env (Exec ''SetFile'' [''-a'', ''C'', dmgPath]) s5 of
        (Failed e, s6) \<Rightarrow> (Some (''failed to set icon: '' @ e), s6)
      | (Done x6, s6) \<Rightarrow> (None, s6)))))))"

definition setFileIcon :: "'w env \<Rightarrow> path \<Rightarrow> path \<Rightarrow> 'w st \<Rightarrow> string option \<times> 'w st" where
  "setFileIcon env dmgPath iconPath s =
     (case do_call env (MkdirTemp '''' ''*-zapp-dmg'') s of
        (Failed e, s1) \<Rightarrow> (Some (''failed to create temporary directory: '' @ e), s1)
      | (Done tempDir, s1) \<Rightarrow>
          (case setFileIcon_body env tempDir dmgPath iconPath s1 of
             (r, s2) \<Rightarrow> (r, do_call_ignored env (RemoveAll tempDir) s2)))"

section \<open>The compressed build path\<close>

text \<open>\<open>time.Now().UnixNano()\<close> printed with \<open>%d\<close>: the environment gives the digits.\<close>

definition unixNano :: "'w env \<Rightarrow> 'w st \<Rightarrow> string \<times> 'w st" where
  "unixNano env s =
     (case do_call env UnixNano s of (Done t, s1) \<Rightarrow> (t, s1) | (Failed t, s1) \<Rightarrow> (t, s1))"

definition tempName :: "string \<Rightarrow> path \<Rightarrow> path" where
  "tempName t fileName = Join (Dir_of fileName) (''temp_'' @ t @ ''_'' @ Base fileName)"

text \<open>
  The callback that \<open>createCompressedDMG\<close>, \<open>createCompressedDMGDirect\<close> and
  \<open>createCompressedDMGWithSize\<close> hand to \<open>tmpMount\<close> (the three closures have the same
  text): the volume icon when \<open>Icon\<close> is set, then the background directory, the
  background image and the layout metadata when \<open>Background\<close> is set. The settings put
  into the in-memory store have no effect of their own; \<open>store.Write\<close> is the call.
\<close>

definition customizeBackground :: "'w env \<Rightarrow> Config \<Rightarrow> path \<Rightarrow> 'w st \<Rightarrow> string option \<times> 'w st" where
  "customizeBackground env config mountPoint s =
     (let backgroundDir = Join mountPoint ''.background'' in
      case do_call env (MkdirAll backgroundDir) s of
        (Failed e, s1) \<Rightarrow> (Some (''failed to create .background directory: '' @ e), s1)
      | (Done x1, s1) \<Rightarrow>
     (case copyFile env (Background config) (Join backgroundDir ''background.png'') s1 of
        (Some e, s2) \<Rightarrow> (Some (''failed to copy background: '' @ e), s2)
      | (None, s2) \<Rightarrow>
     (case do_call env (DSStoreWrite (Join mountPoint ''.DS_Store'')) s2 of
        (Failed e, s3) \<Rightarrow> (Some (''failed to write .DS_Store: '' @ e), s3)
      | (Done x3, s3) \<Rightarrow> (None, s3))))"

definition customizeCompressed :: "'w env \<Rightarrow> Config \<Rightarrow> 'w process" where
  "customizeCompressed env config dmgFilePath mountPoint s =
     (case (if Icon config \<noteq> [] then setDMGIcon env mountPoint (Icon config) s else (None, s)) of
        (Some e, s1) \<Rightarrow> (Some (''failed to set DMG icon: '' @ e), s1)
      | (None, s1) \<Rightarrow>
          (if Background config \<noteq> [] then customizeBackground env config mountPoint s1
           else (None, s1)))"

text \<open>
  The tail shared by the three functions: the customization when an icon or a background
  is configured (its error is returned as it is), the forced-detach pass, and the
  conversion of the writable image to the target format by the \<open>hdiutil\<close> command.
\<close>

definition convertArgs :: "Config \<Rightarrow> string list" where
  "convertArgs config =
     (if CompressionLevel config \<noteq> []
      then [''-imagekey'', ''zlib-level='' @ CompressionLevel config] else [])"

definition customizeAndConvert :: "'w env \<Rightarrow> Config \<Rightarrow> path \<Rightarrow> 'w st \<Rightarrow> string option \<times> 'w st" where
  "customizeAndConvert env config tempDMG s =
     (case (if Icon config \<noteq> [] \<or> Background config \<noteq> []
            then tmpMount env tempDMG (customizeCompressed env config) s else (None, s)) of
        (Some e, s1) \<Rightarrow> (Some e, s1)
      | (None, s1) \<Rightarrow>
     (case do_call env
             (Exec ''hdiutil'' ([''convert'', tempDMG, ''-format'', Format config,
                                 ''-o'', FileName config] @ convertArgs config))
             (forceDetachDMG env tempDMG s1) of
        (Failed e, s2) \<Rightarrow> (Some (''hdiutil convert failed: '' @ e), s2)
      | (Done output, s2) \<Rightarrow> (None, s2)))"

text \<open>
  \<open>createCompressedDMG\<close>: the writable intermediate image is created from the staged
  directory, customized and converted; the deferred \<open>os.Remove\<close> of the intermediate
  image runs on every path.
\<close>

definition createCompressedDMG :: "'w env \<Rightarrow> Config \<Rightarrow> path \<Rightarrow> 'w st \<Rightarrow> string option \<times> 'w st" where
  "createCompressedDMG env config sourceDir s =
     (case unixNano env s of
        (t, s0) \<Rightarrow>
          (let tempDMG = tempName t (FileName config) in
           case (case do_call env (HdiutilCreate (Title config) sourceDir UDRW tempDMG) s0 of
                   (Failed e, s1) \<Rightarrow> (Some (''failed to create temp dmg: '' @ e), s1)
                 | (Done x1, s1) \<Rightarrow> customizeAndConvert env config tempDMG s1) of
             (r, s2) \<Rightarrow> (r, do_call_ignored env (Remove tempDMG) s2)))"

definition createCompressedDMGDirect :: "'w env \<Rightarrow> Config \<Rightarrow> path \<Rightarrow> 'w st \<Rightarrow> string option \<times> 'w st" where
  "createCompressedDMGDirect env config tempDir s =
     (case unixNano env s of
        (t, s0) \<Rightarrow>
          (let tempDMG = tempName t (FileName config) in
           case (case do_call env (HdiutilCreate (Title config) tempDir UDRW tempDMG) s0 of
                   (Failed e, s1) \<Rightarrow> (Some (''failed to create temp dmg: '' @ e), s1)
                 | (Done x1, s1) \<Rightarrow> customizeAndConvert env config tempDMG s1) of
             (r, s2) \<Rightarrow> (r, do_call_ignored env (Remove tempDMG) s2)))"

definition createCompressedDMGWithSize ::
  "'w env \<Rightarrow> Config \<Rightarrow> path \<Rightarrow> int \<Rightarrow> 'w st \<Rightarrow> string option \<times> 'w st" where
  "createCompressedDMGWithSize env config sourceDir sizeMB s =
     (case unixNano env s of
        (t, s0) \<Rightarrow>
          (let tempDMG = tempName t (FileName config) in
           case (case do_call env
                        (HdiutilCreateWithSize (Title config) sourceDir UDRW tempDMG sizeMB) s0 of
                   (Failed e, s1) \<Rightarrow> (Some (''failed to create temp dmg: '' @ e), s1)
                 | (Done x1, s1) \<Rightarrow> customizeAndConvert env config tempDMG s1) of
             (r, s2) \<Rightarrow> (r, do_call_ignored env (Remove tempDMG) s2)))"

section \<open>Staging content\<close>

text \<open>
  The content found at a source path: a file with its size in bytes, or a directory with
  its entries in the order \<open>os.ReadDir\<close> lists them. The traversals below recurse on
  this tree; whether each single call (\<open>Stat\<close>, \<open>ReadDir\<close>, \<open>Link\<close>, ...) succeeds is
  the environment's answer. An entry whose \<open>Stat\<close> fails (a dangling symbolic link, a
  file removed meanwhile) is an entry of the tree for which the environment answers
  \<open>Failed\<close>.
\<close>

datatype fsnode = FileNode nat | DirNode "(string \<times> fsnode) list"

text \<open>
  What a staging function has put at a destination: a copy of a file, a hard link to a
  file, a symbolic link to a path, or a directory with its entries.
\<close>

datatype staged =
    Copied path
  | HardLinked path
  | SymLinked path
  | StagedDir "(string \<times> staged) list"

text \<open>
  \<open>isDir\<close>: \<open>os.Stat\<close> follows symbolic links, so the branch of the Go function for a
  symbolic link is never taken; the answer is the kind of the node.
\<close>

definition isDir :: "'w env \<Rightarrow> path \<Rightarrow> fsnode \<Rightarrow> 'w st \<Rightarrow> (string + bool) \<times> 'w st" where
  "isDir env p node s =
     (case do_call env (Stat p) s of
        (Failed e, s1) \<Rightarrow> (Inl e, s1)
      | (Done x, s1) \<Rightarrow> (Inr (case node of DirNode es \<Rightarrow> True | FileNode n \<Rightarrow> False), s1))"

text \<open>
  The head of \<open>copyDir\<close>, \<open>copyDirWithHardLinks\<close> and \<open>smartCopyDir\<close>: \<open>Stat\<close> of the
  source, \<open>MkdirAll\<close> of the destination, \<open>ReadDir\<close> of the source. Reading a path that
  is a file as a directory fails.
\<close>

definition openDirs :: "'w env \<Rightarrow> path \<Rightarrow> path \<Rightarrow> fsnode \<Rightarrow> 'w st \<Rightarrow> string option \<times> 'w st" where
  "openDirs env src dst node s =
     (case do_call env (Stat src) s of
        (Failed e, s1) \<Rightarrow> (Some e, s1)
      | (Done x1, s1) \<Rightarrow>
     (case do_call env (MkdirAll dst) s1 of
        (Failed e, s2) \<Rightarrow> (Some e, s2)
      | (Done x2, s2) \<Rightarrow>
     (case do_call env (ReadDir src) s2 of
        (Failed e, s3) \<Rightarrow> (Some e, s3)
      | (Done x3, s3) \<Rightarrow>
          (case node of FileNode n \<Rightarrow> (Some ''not a directory'', s3)
                      | DirNode es \<Rightarrow> (None, s3)))))"

text \<open>\<open>copyDir\<close>: an entry whose \<open>isDir\<close> fails is skipped; any other failure is returned.\<close>

fun copyDir :: "'w env \<Rightarrow> path \<Rightarrow> path \<Rightarrow> fsnode \<Rightarrow> 'w st \<Rightarrow> (string + staged) \<times> 'w st"
  and copyDir_entries ::
    "'w env \<Rightarrow> path \<Rightarrow> path \<Rightarrow> (string \<times> fsnode) list \<Rightarrow> 'w st
       \<Rightarrow> (string + (string \<times> staged) list) \<times> 'w st" where
  "copyDir env src dst (FileNode n) s =
     (case openDirs env src dst (FileNode n) s of
        (Some e, s1) \<Rightarrow> (Inl e, s1)
      | (None, s1) \<Rightarrow> (Inr (StagedDir []), s1))"
| "copyDir env src dst (DirNode es) s =
     (case openDirs env src dst (DirNode es) s of
        (Some e, s1) \<Rightarrow> (Inl e, s1)
      | (None, s1) \<Rightarrow>
          (case copyDir_entries env src dst es s1 of
             (Inl e, s2) \<Rightarrow> (Inl e, s2)
           | (Inr ents, s2) \<Rightarrow> (Inr (StagedDir ents), s2)))"
| "copyDir_entries env src dst [] s = (Inr [], s)"
| "copyDir_entries env src dst ((name, node) # rest) s =
     (let srcPath = Join src name; dstPath = Join dst name in
      case isDir env srcPath node s of
        (Inl e, s1) \<Rightarrow> copyDir_entries env src dst rest s1
      | (Inr is_dir, s1) \<Rightarrow>
          (case (if is_dir then copyDir env srcPath dstPath node s1
                 else (case copyFile env srcPath dstPath s1 of
                         (Some e, s2) \<Rightarrow> (Inl e, s2)
                       | (None, s2) \<Rightarrow> (Inr (Copied srcPath), s2))) of
             (Inl e, s2) \<Rightarrow> (Inl e, s2)
           | (Inr st, s2) \<Rightarrow>
               (case copyDir_entries env src dst rest s2 of
                  (Inl e, s3) \<Rightarrow> (Inl e, s3)
                | (Inr ents, s3) \<Rightarrow> (Inr ((name, st) # ents), s3))))"

text \<open>
  The step for one file in the hard-link strategies: \<open>os.Link\<close> first; when it fails,
  \<open>copyFile\<close>; the error of the copy is the error of the step.
\<close>

definition linkOrCopy :: "'w env \<Rightarrow> path \<Rightarrow> path \<Rightarrow> 'w st \<Rightarrow> (string + staged) \<times> 'w st" where
  "linkOrCopy env srcPath dstPath s =
     (case do_call env (OsLink srcPath dstPath) s of
        (Done x, s1) \<Rightarrow> (Inr (HardLinked srcPath), s1)
      | (Failed e1, s1) \<Rightarrow>
          (case copyFile env srcPath dstPath s1 of
             (Some e, s2) \<Rightarrow> (Inl e, s2)
           | (None, s2) \<Rightarrow> (Inr (Copied srcPath), s2)))"

text \<open>\<open>copyDirWithHardLinks\<close>: as \<open>copyDir\<close>, with the hard-link step for every file.\<close>

fun copyDirWithHardLinks ::
    "'w env \<Rightarrow> path \<Rightarrow> path \<Rightarrow> fsnode \<Rightarrow> 'w st \<Rightarrow> (string + staged) \<times> 'w st"
  and copyDirWithHardLinks_entries ::
    "'w env \<Rightarrow> path \<Rightarrow> path \<Rightarrow> (string \<times> fsnode) list \<Rightarrow> 'w st
       \<Rightarrow> (string + (string \<times> staged) list) \<times> 'w st" where
  "copyDirWithHardLinks env src dst (FileNode n) s =
     (case openDirs env src dst (FileNode n) s of
        (Some e, s1) \<Rightarrow> (Inl e, s1)
      | (None, s1) \<Rightarrow> (Inr (StagedDir []), s1))"
| "copyDirWithHardLinks env src dst (DirNode es) s =
     (case openDirs env src dst (DirNode es) s of
        (Some e, s1) \<Rightarrow> (Inl e, s1)
      | (None, s1) \<Rightarrow>
          (case copyDirWithHardLinks_entries env src dst es s1 of
             (Inl e, s2) \<Rightarrow> (Inl e, s2)
           | (Inr ents, s2) \<Rightarrow> (Inr (StagedDir ents), s2)))"
| "copyDirWithHardLinks_entries env src dst [] s = (Inr [], s)"
| "copyDirWithHardLinks_entries env src dst ((name, node) # rest) s =
     (let srcPath = Join src name; dstPath = Join dst name in
      case isDir env srcPath node s of
        (Inl e, s1) \<Rightarrow> copyDirWithHardLinks_entries env src dst rest s1
      | (Inr is_dir, s1) \<Rightarrow>
          (case (if is_dir then copyDirWithHardLinks env srcPath dstPath node s1
                 else linkOrCopy env srcPath dstPath s1) of
             (Inl e, s2) \<Rightarrow> (Inl e, s2)
           | (Inr st, s2) \<Rightarrow>
               (case copyDirWithHardLinks_entries env src dst rest s2 of
                  (Inl e, s3) \<Rightarrow> (Inl e, s3)
                | (Inr ents, s3) \<Rightarrow> (Inr ((name, st) # ents), s3))))"

text \<open>
  \<open>filepath.Match\<close> for patterns of literal characters, \<open>*\<close> (any run of characters
  other than the separator) and \<open>?\<close> (one such character). The patterns of
  \<open>smartCopyDir\<close> hold no character class and no escape, so \<open>Match\<close> never reports a
  malformed pattern for them.
\<close>

fun globMatch :: "string \<Rightarrow> string \<Rightarrow> bool" where
  "globMatch [] name = (name = [])"
| "globMatch (p # ps) [] = (p = CHR ''*'' \<and> globMatch ps [])"
| "globMatch (p # ps) (c # cs) =
     (if p = CHR ''*'' then globMatch ps (c # cs) \<or> (c \<noteq> CHR ''/'' \<and> globMatch (p # ps) cs)
      else if p = CHR ''?'' then c \<noteq> CHR ''/'' \<and> globMatch ps cs
      else p = c \<and> globMatch ps cs)"

definition excludePatterns :: "string list" where
  "excludePatterns = [''.DS_Store'', ''__MACOSX'', ''.Trashes'', ''.fseventsd'',
     ''.Spotlight-V100'', ''.TemporaryItems'', ''*.tmp'', ''*.log'', ''*.cache'']"

definition shouldExclude :: "string \<Rightarrow> bool" where
  "shouldExclude name = list_ex (\<lambda>pattern. globMatch pattern name) excludePatterns"

text \<open>
  \<open>smartCopyDir\<close>: as \<open>copyDir\<close>, but an entry whose name matches an exclusion pattern
  is skipped before anything is asked about it. \<open>smartCopyAppBundle\<close> is this function.
\<close>

fun smartCopyDir :: "'w env \<Rightarrow> path \<Rightarrow> path \<Rightarrow> fsnode \<Rightarrow> 'w st \<Rightarrow> (string + staged) \<times> 'w st"
  and smartCopyDir_entries ::
    "'w env \<Rightarrow> path \<Rightarrow> path \<Rightarrow> (string \<times> fsnode) list \<Rightarrow> 'w st
       \<Rightarrow> (string + (string \<times> staged) list) \<times> 'w st" where
  "smartCopyDir env src dst (FileNode n) s =
     (case openDirs env src dst (FileNode n) s of
        (Some e, s1) \<Rightarrow> (Inl e, s1)
      | (None, s1) \<Rightarrow> (Inr (StagedDir []), s1))"
| "smartCopyDir env src dst (DirNode es) s =
     (case openDirs env src dst (DirNode es) s of
        (Some e, s1) \<Rightarrow> (Inl e, s1)
      | (None, s1) \<Rightarrow>
          (case smartCopyDir_entries env src dst es s1 of
             (Inl e, s2) \<Rightarrow> (Inl e, s2)
           | (Inr ents, s2) \<Rightarrow> (Inr (StagedDir ents), s2)))"
| "smartCopyDir_entries env src dst [] s = (Inr [], s)"
| "smartCopyDir_entries env src dst ((name, node) # rest) s =
     (if shouldExclude name then smartCopyDir_entries env src dst rest s
      else
       (let srcPath = Join src name; dstPath = Join dst name in
        case isDir env srcPath node s of
          (Inl e, s1) \<Rightarrow> smartCopyDir_entries env src dst rest s1
        | (Inr is_dir, s1) \<Rightarrow>
            (case (if is_dir then smartCopyDir env srcPath dstPath node s1
                   else (case copyFile env srcPath dstPath s1 of
                           (Some e, s2) \<Rightarrow> (Inl e, s2)
                         | (None, s2) \<Rightarrow> (Inr (Copied srcPath), s2))) of
               (Inl e, s2) \<Rightarrow> (Inl e, s2)
             | (Inr st, s2) \<Rightarrow>
                 (case smartCopyDir_entries env src dst rest s2 of
                    (Inl e, s3) \<Rightarrow> (Inl e, s3)
                  | (Inr ents, s3) \<Rightarrow> (Inr ((name, st) # ents), s3)))))"

definition smartCopyAppBundle ::
  "'w env \<Rightarrow> path \<Rightarrow> path \<Rightarrow> fsnode \<Rightarrow> 'w st \<Rightarrow> (string + staged) \<times> 'w st" where
  "smartCopyAppBundle env src dst node s = smartCopyDir env src dst node s"

section \<open>Size estimation\<close>

text \<open>
  \<open>totalSize\<close> is an \<open>int64\<close>: an addition wraps around. The division of Go truncates
  towards zero.
\<close>

definition wrap64 :: "int \<Rightarrow> int" where
  "wrap64 x = (x + 2 ^ 63) mod 2 ^ 64 - 2 ^ 63"

definition tdiv :: "int \<Rightarrow> int \<Rightarrow> int" where
  "tdiv a b = sgn a * sgn b * (\<bar>a\<bar> div \<bar>b\<bar>)"

text \<open>
  \<open>filepath.Walk\<close> with the callback of \<open>CreateDMGLikeBash\<close> and \<open>calculateDirSize\<close>
  (the two closures have the same text): the callback returns the error it is given,
  which ends the walk, and adds the size of every entry that is not a directory to
  \<open>totalSize\<close>. \<open>Walk\<close> asks \<open>Lstat\<close> about the root and about every entry and reads every
  directory; a symbolic link is an entry that is not a directory. The result is the
  error of the walk and the total reached.
\<close>

fun walk :: "'w env \<Rightarrow> path \<Rightarrow> fsnode \<Rightarrow> int \<Rightarrow> 'w st \<Rightarrow> (string option \<times> int) \<times> 'w st"
  and walk_entries ::
    "'w env \<Rightarrow> path \<Rightarrow> (string \<times> fsnode) list \<Rightarrow> int \<Rightarrow> 'w st \<Rightarrow> (string option \<times> int) \<times> 'w st" where
  "walk env p (FileNode n) totalSize s = ((None, wrap64 (totalSize + int n)), s)"
| "walk env p (DirNode es) totalSize s =
     (case do_call env (ReadDir p) s of
        (Failed e, s1) \<Rightarrow> ((Some e, totalSize), s1)
      | (Done x, s1) \<Rightarrow> walk_entries env p es totalSize s1)"
| "walk_entries env p [] totalSize s = ((None, totalSize), s)"
| "walk_entries env p ((name, node) # rest) totalSize s =
     (let filename = Join p name in
      case do_call env (Lstat filename) s of
        (Failed e, s1) \<Rightarrow> ((Some e, totalSize), s1)
      | (Done x, s1) \<Rightarrow>
          (case walk env filename node totalSize s1 of
             ((Some e, t), s2) \<Rightarrow> ((Some e, t), s2)
           | ((None, t), s2) \<Rightarrow> walk_entries env p rest t s2))"

definition Walk :: "'w env \<Rightarrow> path \<Rightarrow> fsnode \<Rightarrow> int \<Rightarrow> 'w st \<Rightarrow> (string option \<times> int) \<times> 'w st" where
  "Walk env rootPath node totalSize s =
     (case do_call env (Lstat rootPath) s of
        (Failed e, s1) \<Rightarrow> ((Some e, totalSize), s1)
      | (Done x, s1) \<Rightarrow> walk env rootPath node totalSize s1)"

text \<open>
  The arithmetic of the margin is done in \<open>float64\<close>. A finite double is an integer of
  at most 53 significant bits times a power of two; \<open>round_sig53\<close> rounds a natural
  number to 53 significant bits, to nearest, ties to even, as the conversion of an
  integer and the multiplication do (no overflow or underflow is in reach of the
  values below).
\<close>

fun bitlen_nat :: "nat \<Rightarrow> nat" where
  "bitlen_nat n = (if n = 0 then 0 else Suc (bitlen_nat (n div 2)))"

declare bitlen_nat.simps [simp del]

definition round_sig53 :: "nat \<Rightarrow> nat" where
  "round_sig53 n =
     (if n < 2 ^ 53 then n
      else (let sh = bitlen_nat n - 53; q = n div 2 ^ sh; r = n mod 2 ^ sh; h = 2 ^ (sh - 1)
            in (if r > h \<or> (r = h \<and> odd q) then q + 1 else q) * 2 ^ sh))"

text \<open>
  \<open>int(float64(m) * c)\<close> for a constant \<open>c\<close> whose double is \<open>k / 2^54\<close>: the integer is
  converted, the exact product is rounded, and the conversion to \<open>int\<close> drops the
  fraction. The sign is carried apart, rounding being symmetric.
\<close>

definition f64_mul_trunc :: "nat \<Rightarrow> int \<Rightarrow> int" where
  "f64_mul_trunc k m = sgn m * int (round_sig53 (round_sig53 (nat \<bar>m\<bar>) * k) div 2 ^ 54)"

text \<open>The doubles of the constants \<open>0.5\<close> and \<open>0.2\<close>, as multiples of \<open>2^-54\<close>.\<close>

definition f64_half :: nat where "f64_half = 2 ^ 53"
definition f64_fifth :: nat where "f64_fifth = 3602879701896397"

text \<open>
  The size computed by \<open>CreateDMGLikeBash\<close> from \<open>totalSize\<close>: whole megabytes plus
  50 percent, at least 200 and at most 2000.
\<close>

definition likeBashSizeMB :: "int \<Rightarrow> int" where
  "likeBashSizeMB totalSize =
     (let sizeMB = tdiv totalSize (1024 * 1024) + f64_mul_trunc f64_half (tdiv totalSize (1024 * 1024));
          sizeMB = (if sizeMB < 200 then 200 else sizeMB);
          sizeMB = (if sizeMB > 2000 then 2000 else sizeMB)
      in sizeMB)"

text \<open>
  The size computed by \<open>calculateDirSize\<close> from \<open>totalSize\<close>: whole megabytes plus
  20 percent, at least 100.
\<close>

definition leanSizeMB :: "int \<Rightarrow> int" where
  "leanSizeMB totalSize =
     (let sizeMB = tdiv totalSize (1024 * 1024) + f64_mul_trunc f64_fifth (tdiv totalSize (1024 * 1024))
      in if sizeMB < 100 then 100 else sizeMB)"

definition calculateDirSize :: "'w env \<Rightarrow> path \<Rightarrow> fsnode \<Rightarrow> 'w st \<Rightarrow> (string + int) \<times> 'w st" where
  "calculateDirSize env dir node s =
     (case Walk env dir node 0 s of
        ((Some e, t), s1) \<Rightarrow> (Inl e, s1)
      | ((None, totalSize), s1) \<Rightarrow> (Inr (leanSizeMB totalSize), s1))"

text \<open>
  The first loop of \<open>CreateDMGLikeBash\<close>: every item of type \<open>Dir\<close> is walked, the result
  of \<open>Walk\<close> is dropped, and the total reached so far is kept. \<open>fs\<close> gives the content
  a traversal finds at a path.
\<close>

fun sumDirItems :: "'w env \<Rightarrow> (path \<Rightarrow> fsnode) \<Rightarrow> Item list \<Rightarrow> int \<Rightarrow> 'w st \<Rightarrow> int \<times> 'w st" where
  "sumDirItems env fs [] totalSize s = (totalSize, s)"
| "sumDirItems env fs (item # rest) totalSize s =
     (if Type item = Dir then
        (case Walk env (Path item) (fs (Path item)) totalSize s of
           ((r, t), s1) \<Rightarrow> sumDirItems env fs rest t s1)
      else sumDirItems env fs rest totalSize s)"

section \<open>Staging the items of a configuration\<close>

text \<open>
  The working directory of a build, as the entries the staging calls have put directly
  into it: a list of names with what was staged under each name. Staging under a name
  that is present replaces the entry.
\<close>

type_synonym workdir = "(string \<times> staged) list"

fun put :: "string \<Rightarrow> staged \<Rightarrow> workdir \<Rightarrow> workdir" where
  "put name st [] = [(name, st)]"
| "put name st ((k, v) # rest) = (if k = name then (name, st) # rest else (k, v) # put name st rest)"

text \<open>
  The loop \<open>for _, item := range config.Contents { switch item.Type { ... } }\<close> of the
  three stagers. \<open>step\<close> is the body of the switch for one item: an error ends the loop,
  \<open>Inr (Some st)\<close> is what a case staged under the base name of the item's path, and
  \<open>Inr None\<close> is an item whose type matches no case (the switches have no default).
\<close>

type_synonym 'w step = "Item \<Rightarrow> 'w st \<Rightarrow> (string + staged option) \<times> 'w st"

fun stageLoop :: "'w step \<Rightarrow> Item list \<Rightarrow> workdir \<Rightarrow> 'w st \<Rightarrow> (string option \<times> workdir) \<times> 'w st" where
  "stageLoop step [] wd s = ((None, wd), s)"
| "stageLoop step (item # rest) wd s =
     (case step item s of
        (Inl e, s1) \<Rightarrow> ((Some e, wd), s1)
      | (Inr None, s1) \<Rightarrow> stageLoop step rest wd s1
      | (Inr (Some st), s1) \<Rightarrow> stageLoop step rest (put (Base (Path item)) st wd) s1)"

text \<open>
  The background image, staged by every stager after the items: the directory
  \<open>.background\<close> with a copy of the image. \<open>wrap\<close> is the text put before the error of
  the copy.
\<close>

definition stageBackground ::
  "'w env \<Rightarrow> Config \<Rightarrow> path \<Rightarrow> workdir \<Rightarrow> 'w st \<Rightarrow> (string option \<times> workdir) \<times> 'w st" where
  "stageBackground env config dir wd s =
     (if Background config \<noteq> [] then
        (let backgroundDir = Join dir ''.background'' in
         case do_call env (MkdirAll backgroundDir) s of
           (Failed e, s1) \<Rightarrow> ((Some (''failed to create .background directory: '' @ e), wd), s1)
         | (Done x, s1) \<Rightarrow>
             (case copyFile env (Background config) (Join backgroundDir ''background.png'') s1 of
                (Some e, s2) \<Rightarrow> ((Some (''failed to copy background: '' @ e), wd), s2)
              | (None, s2) \<Rightarrow>
                  ((None, put ''.background''
                            (StagedDir [(''background.png'', Copied (Background config))]) wd), s2)))
      else ((None, wd), s))"

text \<open>
  \<open>optimizeAppBundle\<close>: removes three files when \<open>Stat\<close> finds them and every match of
  three patterns; every result is dropped and \<open>nil\<close> is returned. The reply of \<open>Glob\<close>
  lists the matches, one on a line.
\<close>

fun removeIfPresent :: "'w env \<Rightarrow> path list \<Rightarrow> 'w st \<Rightarrow> 'w st" where
  "removeIfPresent env [] s = s"
| "removeIfPresent env (file # rest) s =
     (case do_call env (Stat file) s of
        (Done x, s1) \<Rightarrow> removeIfPresent env rest (do_call_ignored env (Remove file) s1)
      | (Failed e, s1) \<Rightarrow> removeIfPresent env rest s1)"

fun removeAllOf :: "'w env \<Rightarrow> path list \<Rightarrow> 'w st \<Rightarrow> 'w st" where
  "removeAllOf env [] s = s"
| "removeAllOf env (m # rest) s = removeAllOf env rest (do_call_ignored env (Remove m) s)"

fun removeMatches :: "'w env \<Rightarrow> string list \<Rightarrow> 'w st \<Rightarrow> 'w st" where
  "removeMatches env [] s = s"
| "removeMatches env (pattern # rest) s =
     (case do_call env (Glob pattern) s of
        (Done out, s1) \<Rightarrow>
          removeMatches env rest (removeAllOf env (filter (\<lambda>m. m \<noteq> []) (SplitLines out)) s1)
      | (Failed e, s1) \<Rightarrow> removeMatches env rest s1)"

definition optimizeAppBundle :: "'w env \<Rightarrow> path \<Rightarrow> 'w st \<Rightarrow> string option \<times> 'w st" where
  "optimizeAppBundle env appPath s =
     (let filesToRemove =
            [Join (Join (Join appPath ''Contents'') ''_CodeSignature'') ''CodeResources'',
             Join appPath ''.DS_Store'',
             Join (Join appPath ''Contents'') ''.DS_Store''];
          tempPatterns =
            [Join (Join (Join appPath ''Contents'') ''MacOS'') ''*.tmp'',
             Join (Join (Join appPath ''Contents'') ''Resources'') ''*.tmp'',
             Join (Join (Join appPath ''Contents'') ''Frameworks'') ''*.tmp'']
      in (None, removeMatches env tempPatterns (removeIfPresent env filesToRemove s)))"

fun optimizeItems :: "'w env \<Rightarrow> Config \<Rightarrow> Item list \<Rightarrow> 'w st \<Rightarrow> 'w st" where
  "optimizeItems env config [] s = s"
| "optimizeItems env config (item # rest) s =
     (if Type item = Dir \<and> HasSuffix (Path item) ''.app'' then
        (case optimizeAppBundle env (Path item) s of
           (Some e, s1) \<Rightarrow>
             optimizeItems env config rest
               (if LogWriter config
                then do_call_ignored env
                       (Fprintf ''Warning: failed to optimize app bundle %s: %v\<newline>'' [Str (Path item), Str e]) s1
                else s1)
         | (None, s1) \<Rightarrow> optimizeItems env config rest s1)
      else optimizeItems env config rest s)"

text \<open>
  The body of the switch in \<open>setupSourceDirectory\<close>, for one item. \<open>fs\<close> gives the
  content a traversal finds at a path.
\<close>

definition setupStep :: "'w env \<Rightarrow> (path \<Rightarrow> fsnode) \<Rightarrow> Config \<Rightarrow> path \<Rightarrow> 'w step" where
  "setupStep env fs config sourceDir item s =
     (let destPath = Join sourceDir (Base (Path item)) in
      if Type item = File then
        (if UseHardLinks config then
           (case do_call env (OsLink (Path item) destPath) s of
              (Done x, s1) \<Rightarrow> (Inr (Some (HardLinked (Path item))), s1)
            | (Failed e1, s1) \<Rightarrow>
                (case copyFile env (Path item) destPath s1 of
                   (Some e, s2) \<Rightarrow>
                     (Inl (''failed to copy file '' @ Path item @ '' to '' @ destPath @ '': '' @ e), s2)
                 | (None, s2) \<Rightarrow> (Inr (Some (Copied (Path item))), s2)))
         else
           (case copyFile env (Path item) destPath s of
              (Some e, s1) \<Rightarrow>
                (Inl (''failed to copy file '' @ Path item @ '' to '' @ destPath @ '': '' @ e), s1)
            | (None, s1) \<Rightarrow> (Inr (Some (Copied (Path item))), s1)))
      else if Type item = Dir then
        (if UseHardLinks config then
           (case copyDirWithHardLinks env (Path item) destPath (fs (Path item)) s of
              (Inr st, s1) \<Rightarrow> (Inr (Some st), s1)
            | (Inl e1, s1) \<Rightarrow>
                (case copyDir env (Path item) destPath (fs (Path item)) s1 of
                   (Inl e, s2) \<Rightarrow>
                     (Inl (''failed to copy dir '' @ Path item @ '' to '' @ destPath @ '': '' @ e), s2)
                 | (Inr st, s2) \<Rightarrow> (Inr (Some st), s2)))
         else if HasSuffix (Path item) ''.app'' then
           (case smartCopyAppBundle env (Path item) destPath (fs (Path item)) s of
              (Inl e, s1) \<Rightarrow>
                (Inl (''failed to smart copy app bundle '' @ Path item @ '' to '' @ destPath
                      @ '': '' @ e), s1)
            | (Inr st, s1) \<Rightarrow> (Inr (Some st), s1))
         else
           (case copyDir env (Path item) destPath (fs (Path item)) s of
              (Inl e, s1) \<Rightarrow>
                (Inl (''failed to copy dir '' @ Path item @ '' to '' @ destPath @ '': '' @ e), s1)
            | (Inr st, s1) \<Rightarrow> (Inr (Some st), s1)))
      else if Type item = Link then
        (case do_call env (OsSymlink (Path item) destPath) s of
           (Failed e, s1) \<Rightarrow> (Inl (''failed to create symbolic link '' @ Path item @ '': '' @ e), s1)
         | (Done x, s1) \<Rightarrow> (Inr (Some (SymLinked (Path item))), s1))
      else (Inr None, s))"

text \<open>
  \<open>setupSourceDirectory\<close>: the optional optimization of the application bundles, the
  items, the background. \<open>wd\<close> is what the working directory holds at the start.
\<close>

definition setupSourceDirectory ::
  "'w env \<Rightarrow> (path \<Rightarrow> fsnode) \<Rightarrow> Config \<Rightarrow> path \<Rightarrow> workdir \<Rightarrow> 'w st
     \<Rightarrow> (string option \<times> workdir) \<times> 'w st" where
  "setupSourceDirectory env fs config sourceDir wd s =
     (let s0 = (if OptimizeAppSize config then optimizeItems env config (Contents config) s else s) in
      case stageLoop (setupStep env fs config sourceDir) (Contents config) wd s0 of
        ((Some e, wd1), s1) \<Rightarrow> ((Some e, wd1), s1)
      | ((None, wd1), s1) \<Rightarrow> stageBackground env config sourceDir wd1 s1)"

text \<open>The body of the switch in \<open>createSymbolicLinks\<close>, and the function.\<close>

definition symlinkStep :: "'w env \<Rightarrow> path \<Rightarrow> 'w step" where
  "symlinkStep env tempDir item s =
     (let destPath = Join tempDir (Base (Path item)) in
      if Type item = File then
        (case do_call env (OsSymlink (Path item) destPath) s of
           (Failed e, s1) \<Rightarrow>
             (Inl (''failed to create symbolic link for file '' @ Path item @ '': '' @ e), s1)
         | (Done x, s1) \<Rightarrow> (Inr (Some (SymLinked (Path item))), s1))
      else if Type item = Dir then
        (case do_call env (OsSymlink (Path item) destPath) s of
           (Failed e, s1) \<Rightarrow>
             (Inl (''failed to create symbolic link for directory '' @ Path item @ '': '' @ e), s1)
         | (Done x, s1) \<Rightarrow> (Inr (Some (SymLinked (Path item))), s1))
      else if Type item = Link then
        (case do_call env (OsSymlink (Path item) destPath) s of
           (Failed e, s1) \<Rightarrow> (Inl (''failed to create symbolic link '' @ Path item @ '': '' @ e), s1)
         | (Done x, s1) \<Rightarrow> (Inr (Some (SymLinked (Path item))), s1))
      else (Inr None, s))"

definition createSymbolicLinks ::
  "'w env \<Rightarrow> Config \<Rightarrow> path \<Rightarrow> workdir \<Rightarrow> 'w st \<Rightarrow> (string option \<times> workdir) \<times> 'w st" where
  "createSymbolicLinks env config tempDir wd s =
     (case stageLoop (symlinkStep env tempDir) (Contents config) wd s of
        ((Some e, wd1), s1) \<Rightarrow> ((Some e, wd1), s1)
      | ((None, wd1), s1) \<Rightarrow> stageBackground env config tempDir wd1 s1)"

text \<open>The body of the switch in \<open>createDMGWithSafeHardLinks\<close>.\<close>

definition safeStep :: "'w env \<Rightarrow> (path \<Rightarrow> fsnode) \<Rightarrow> path \<Rightarrow> 'w step" where
  "safeStep env fs safeTempDir item s =
     (let destPath = Join safeTempDir (Base (Path item)) in
      if Type item = File then
        (case do_call env (OsLink (Path item) destPath) s of
           (Done x, s1) \<Rightarrow> (Inr (Some (HardLinked (Path item))), s1)
         | (Failed e1, s1) \<Rightarrow>
             (case copyFile env (Path item) destPath s1 of
                (Some e, s2) \<Rightarrow> (Inl (''failed to copy file '' @ Path item @ '': '' @ e), s2)
              | (None, s2) \<Rightarrow> (Inr (Some (Copied (Path item))), s2)))
      else if Type item = Dir then
        (case smartCopyAppBundle env (Path item) destPath (fs (Path item)) s of
           (Inl e, s1) \<Rightarrow> (Inl (''failed to smart copy dir '' @ Path item @ '': '' @ e), s1)
         | (Inr st, s1) \<Rightarrow> (Inr (Some st), s1))
      else if Type item = Link then
        (case do_call env (OsSymlink (Path item) destPath) s of
           (Failed e, s1) \<Rightarrow> (Inl (''failed to create symlink '' @ Path item @ '': '' @ e), s1)
         | (Done x, s1) \<Rightarrow> (Inr (Some (SymLinked (Path item))), s1))
      else (Inr None, s))"

section \<open>The build variants\<close>

text \<open>
  The normalization written at the head of the builders: an empty file name becomes the
  title with the extension, a file name without the extension gets it, and an unset
  format becomes \<open>UDZO\<close>.
\<close>

definition normalizeFileName :: "Config \<Rightarrow> Config" where
  "normalizeFileName config =
     (let config = (if FileName config = [] then config\<lparr>FileName := Title config @ ''.dmg''\<rparr>
                    else config);
          config = (if \<not> HasSuffix (FileName config) ''.dmg''
                    then config\<lparr>FileName := FileName config @ ''.dmg''\<rparr> else config)
      in config)"

definition defaultFormat :: "Config \<Rightarrow> Config" where
  "defaultFormat config = (if Format config = [] then config\<lparr>Format := UDZO\<rparr> else config)"

text \<open>Deferred calls run when the function returns; their results are dropped.\<close>

fun run_deferred :: "'w env \<Rightarrow> call list \<Rightarrow> 'w st \<Rightarrow> 'w st" where
  "run_deferred env [] s = s"
| "run_deferred env (c # cs) s = run_deferred env cs (do_call_ignored env c s)"

text \<open>
  The branch of \<open>CreateDMG\<close> and \<open>CreateDMGDirect\<close> for a format that is not compressed:
  the image is created in the target format; a writable image is renamed and converted
  to a read-only one. The second component is the deferred removal registered on the
  way, which runs when the builder returns.
\<close>

definition createPlain ::
  "'w env \<Rightarrow> Config \<Rightarrow> path \<Rightarrow> 'w st \<Rightarrow> (string option \<times> call list) \<times> 'w st" where
  "createPlain env config dir s =
     (case do_call env (HdiutilCreate (Title config) dir (Format config) (FileName config)) s of
        (Failed e, s1) \<Rightarrow> ((Some (''failed to create dmg: '' @ e), []), s1)
      | (Done x, s1) \<Rightarrow>
          (if Format config = UDRW then
             (case unixNano env s1 of
                (t, s2) \<Rightarrow>
                  (let tempFileName = tempName t (FileName config) in
                   case do_call env (Rename (FileName config) tempFileName) s2 of
                     (Failed e, s3) \<Rightarrow> ((Some (''failed to rename DMG file: '' @ e), []), s3)
                   | (Done x3, s3) \<Rightarrow>
                       (case do_call env (HdiutilConvert tempFileName UDRO (FileName config)) s3 of
                          (Failed e, s4) \<Rightarrow>
                            ((Some (''failed to convert DMG: '' @ e), [Remove tempFileName]), s4)
                        | (Done x4, s4) \<Rightarrow> ((None, [Remove tempFileName]), s4))))
           else ((None, []), s1)))"

text \<open>
  \<open>createDMGWithSafeHardLinks\<close>: the body after the temporary directory was made. The
  configuration is used as it was given: this function holds no normalization of the
  file name or of the format.
\<close>

definition safeHardLinks_body ::
  "'w env \<Rightarrow> (path \<Rightarrow> fsnode) \<Rightarrow> Config \<Rightarrow> path \<Rightarrow> 'w st \<Rightarrow> string option \<times> 'w st" where
  "safeHardLinks_body env fs config safeTempDir s =
     (case stageLoop (safeStep env fs safeTempDir) (Contents config) [] s of
        ((Some e, wd1), s1) \<Rightarrow> (Some e, s1)
      | ((None, wd1), s1) \<Rightarrow>
     (case do_call env (DSStoreWrite (Join safeTempDir ''.DS_Store'')) s1 of
        (Failed e, s2) \<Rightarrow> (Some (''failed to write .DS_Store: '' @ e), s2)
      | (Done x2, s2) \<Rightarrow>
     (case stageBackground env config safeTempDir wd1 s2 of
        ((Some e, wd3), s3) \<Rightarrow> (Some e, s3)
      | ((None, wd3), s3) \<Rightarrow>
     (case calculateDirSize env safeTempDir (fs safeTempDir) s3 of
        (Inl e, s4) \<Rightarrow> (Some (''failed to calculate directory size: '' @ e), s4)
      | (Inr sizeMB, s4) \<Rightarrow>
     (case (if Format config = UDZO \<or> Format config = UDBZ then
              (case createCompressedDMGWithSize env config safeTempDir sizeMB s4 of
                 (Some e, s5) \<Rightarrow> (Some (''failed to create compressed dmg: '' @ e), s5)
               | (None, s5) \<Rightarrow> (None, s5))
            else
              (case do_call env (HdiutilCreateWithSize (Title config) safeTempDir (Format config)
                                   (FileName config) sizeMB) s4 of
                 (Failed e, s5) \<Rightarrow> (Some (''failed to create dmg: '' @ e), s5)
               | (Done x5, s5) \<Rightarrow> (None, s5))) of
        (Some e, s5) \<Rightarrow> (Some e, s5)
      | (None, s5) \<Rightarrow>
          (None, if Icon config \<noteq> [] then snd (setFileIcon env (FileName config) (Icon config) s5)
                 else s5))))))"

definition createDMGWithSafeHardLinks ::
  "'w env \<Rightarrow> (path \<Rightarrow> fsnode) \<Rightarrow> Config \<Rightarrow> path \<Rightarrow> 'w st \<Rightarrow> string option \<times> 'w st" where
  "createDMGWithSafeHardLinks env fs config sourceDir s =
     (case do_call env (MkdirTemp '''' ''*-zapp-dmg-safe'') s of
        (Failed e, s1) \<Rightarrow> (Some (''failed to create safe temporary directory: '' @ e), s1)
      | (Done safeTempDir, s1) \<Rightarrow>
          (case safeHardLinks_body env fs config safeTempDir s1 of
             (r, s2) \<Rightarrow> (r, do_call_ignored env (RemoveAll safeTempDir) s2)))"

text \<open>
  The callback that \<open>CreateDMG\<close> hands to \<open>tmpMount\<close> for the finished image: the volume
  icon, and the layout metadata written again with the background reference.
\<close>

definition customizeFinal :: "'w env \<Rightarrow> Config \<Rightarrow> 'w process" where
  "customizeFinal env config dmgFilePath mountPoint s =
     (case (if Icon config \<noteq> [] then setDMGIcon env mountPoint (Icon config) s else (None, s)) of
        (Some e, s1) \<Rightarrow> (Some (''failed to set DMG icon: '' @ e), s1)
      | (None, s1) \<Rightarrow>
          (if Background config \<noteq> [] then
             (case do_call env (DSStoreWrite (Join mountPoint ''.DS_Store'')) s1 of
                (Failed e, s2) \<Rightarrow> (Some (''failed to write .DS_Store: '' @ e), s2)
              | (Done x, s2) \<Rightarrow> (None, s2))
           else (None, s1)))"

text \<open>
  \<open>CreateDMG\<close>, the part after the early delegation: staging, layout metadata,
  normalization, the image, then the customization of the finished image, whose result
  is assigned to \<open>err\<close> and not read again, then the file icon, then \<open>return nil\<close>.
\<close>

definition CreateDMG_standard ::
  "'w env \<Rightarrow> (path \<Rightarrow> fsnode) \<Rightarrow> Config \<Rightarrow> path \<Rightarrow> workdir \<Rightarrow> 'w st \<Rightarrow> string option \<times> 'w st" where
  "CreateDMG_standard env fs config sourceDir wd s =
     (case do_call env (MkdirAll sourceDir) s of
        (Failed e, s1) \<Rightarrow> (Some (''failed to create source directory: '' @ e), s1)
      | (Done x1, s1) \<Rightarrow>
     (case setupSourceDirectory env fs config sourceDir wd s1 of
        ((Some e, wd2), s2) \<Rightarrow> (Some (''failed to setup source directory: '' @ e), s2)
      | ((None, wd2), s2) \<Rightarrow>
     (case do_call env (DSStoreWrite (Join sourceDir ''.DS_Store'')) s2 of
        (Failed e, s3) \<Rightarrow> (Some (''failed to write .DS_Store: '' @ e), s3)
      | (Done x3, s3) \<Rightarrow>
     (let config = defaultFormat (normalizeFileName config) in
      case (if Format config = UDZO \<or> Format config = UDBZ then
              (case createCompressedDMG env config sourceDir s3 of
                 (Some e, s4) \<Rightarrow> ((Some (''failed to create compressed dmg: '' @ e), []), s4)
               | (None, s4) \<Rightarrow> ((None, []), s4))
            else createPlain env config sourceDir s3) of
        ((Some e, deferred), s4) \<Rightarrow> (Some e, run_deferred env deferred s4)
      | ((None, deferred), s4) \<Rightarrow>
          (let s5 = (if Icon config \<noteq> [] \<or> Background config \<noteq> []
                     then snd (tmpMount env (FileName config) (customizeFinal env config) s4)
                     else s4);
               s6 = (if Icon config \<noteq> []
                     then snd (setFileIcon env (FileName config) (Icon config) s5) else s5)
           in (None, run_deferred env deferred s6))))))"

definition CreateDMG ::
  "'w env \<Rightarrow> (path \<Rightarrow> fsnode) \<Rightarrow> Config \<Rightarrow> path \<Rightarrow> workdir \<Rightarrow> 'w st \<Rightarrow> string option \<times> 'w st" where
  "CreateDMG env fs config sourceDir wd s =
     (if UseHardLinks config then createDMGWithSafeHardLinks env fs config sourceDir s
      else CreateDMG_standard env fs config sourceDir wd s)"

text \<open>\<open>CreateDMGDirect\<close>: the body after the temporary directory was made, and the function.\<close>

definition CreateDMGDirect_body ::
  "'w env \<Rightarrow> Config \<Rightarrow> path \<Rightarrow> 'w st \<Rightarrow> string option \<times> 'w st" where
  "CreateDMGDirect_body env config tempDir s =
     (case createSymbolicLinks env config tempDir [] s of
        ((Some e, wd1), s1) \<Rightarrow> (Some (''failed to create symbolic links: '' @ e), s1)
      | ((None, wd1), s1) \<Rightarrow>
     (case do_call env (DSStoreWrite (Join tempDir ''.DS_Store'')) s1 of
        (Failed e, s2) \<Rightarrow> (Some (''failed to write .DS_Store: '' @ e), s2)
      | (Done x2, s2) \<Rightarrow>
     (case (if Format config = UDZO \<or> Format config = UDBZ then
              (case createCompressedDMGDirect env config tempDir s2 of
                 (Some e, s3) \<Rightarrow> ((Some (''failed to create compressed dmg: '' @ e), []), s3)
               | (None, s3) \<Rightarrow> ((None, []), s3))
            else createPlain env config tempDir s2) of
        ((Some e, deferred), s3) \<Rightarrow> (Some e, run_deferred env deferred s3)
      | ((None, deferred), s3) \<Rightarrow>
          (None, run_deferred env deferred
                   (if Icon config \<noteq> []
                    then snd (setFileIcon env (FileName config) (Icon config) s3) else s3)))))"

definition CreateDMGDirect :: "'w env \<Rightarrow> Config \<Rightarrow> 'w st \<Rightarrow> string option \<times> 'w st" where
  "CreateDMGDirect env config s =
     (let config = defaultFormat (normalizeFileName config) in
      case do_call env (MkdirTemp '''' ''*-zapp-dmg-direct'') s of
        (Failed e, s1) \<Rightarrow> (Some (''failed to create temporary directory: '' @ e), s1)
      | (Done tempDir, s1) \<Rightarrow>
          (case CreateDMGDirect_body env config tempDir s1 of
             (r, s2) \<Rightarrow> (r, do_call_ignored env (RemoveAll tempDir) s2)))"

text \<open>
  \<open>CreateDMGLikeBash\<close>. The second loop over the items: the path of the first item of
  type \<open>Dir\<close> whose path ends in \<open>.app\<close>, the empty string when there is none.
\<close>

fun findMainApp :: "Item list \<Rightarrow> path" where
  "findMainApp [] = []"
| "findMainApp (item # rest) =
     (if Type item = Dir \<and> HasSuffix (Path item) ''.app'' then Path item else findMainApp rest)"

text \<open>The callback that \<open>CreateDMGLikeBash\<close> hands to \<open>tmpMount\<close>.\<close>

definition customizeLikeBash :: "'w env \<Rightarrow> Config \<Rightarrow> 'w process" where
  "customizeLikeBash env config dmgFilePath mountPoint s =
     (case do_call env (OsSymlink ''/Applications'' (Join mountPoint ''Applications'')) s of
        (Failed e, s1) \<Rightarrow> (Some (''failed to create Applications link: '' @ e), s1)
      | (Done x1, s1) \<Rightarrow>
     (case (if Background config \<noteq> [] then
              (let backgroundDir = Join mountPoint ''.background'' in
               case do_call env (MkdirAll backgroundDir) s1 of
                 (Failed e, s2) \<Rightarrow> (Some (''failed to create .background directory: '' @ e), s2)
               | (Done x2, s2) \<Rightarrow>
              (case copyFile env (Background config) (Join backgroundDir ''background.png'') s2 of
                 (Some e, s3) \<Rightarrow> (Some (''failed to copy background: '' @ e), s3)
               | (None, s3) \<Rightarrow>
              (case do_call env (Exec ''SetFile'' [''-a'', ''V'', backgroundDir]) s3 of
                 (Failed e, s4) \<Rightarrow> (Some (''failed to hide background folder: '' @ e), s4)
               | (Done x4, s4) \<Rightarrow> (None, s4))))
            else (None, s1)) of
        (Some e, s2) \<Rightarrow> (Some e, s2)
      | (None, s2) \<Rightarrow>
     (case (if Icon config \<noteq> [] then
              (case setDMGIcon env mountPoint (Icon config) s2 of
                 (Some e, s3) \<Rightarrow> (Some (''failed to set DMG icon: '' @ e), s3)
               | (None, s3) \<Rightarrow> (None, s3))
            else (None, s2)) of
        (Some e, s3) \<Rightarrow> (Some e, s3)
      | (None, s3) \<Rightarrow>
     (case do_call env (DSStoreWrite (Join mountPoint ''.DS_Store'')) s3 of
        (Failed e, s4) \<Rightarrow> (Some (''failed to write .DS_Store: '' @ e), s4)
      | (Done x4, s4) \<Rightarrow> (None, s4)))))"

text \<open>
  The steps of \<open>CreateDMGLikeBash\<close> from the creation of the writable image on, for the
  application bundle found and the size computed.
\<close>

definition likeBash_build ::
  "'w env \<Rightarrow> Config \<Rightarrow> path \<Rightarrow> path \<Rightarrow> int \<Rightarrow> 'w st \<Rightarrow> string option \<times> 'w st" where
  "likeBash_build env config tempDMG mainAppPath sizeMB s =
     (case do_call env (HdiutilCreateWithSize (Title config) mainAppPath UDRW tempDMG sizeMB) s of
        (Failed e, s1) \<Rightarrow> (Some (''failed to create temp dmg: '' @ e), s1)
      | (Done x1, s1) \<Rightarrow>
     (case tmpMount env tempDMG (customizeLikeBash env config)
             (do_call_ignored env (Fprintf ''Mounting and customizing DMG...\<newline>'' []) s1) of
        (Some e, s2) \<Rightarrow> (Some e, s2)
      | (None, s2) \<Rightarrow>
     (case do_call env
             (Exec ''hdiutil''
                ([''convert'', tempDMG, ''-format'', ''UDZO'', ''-o'', FileName config]
                 @ (if CompressionLevel config \<noteq> []
                    then [''-imagekey'', ''zlib-level='' @ CompressionLevel config]
                    else [''-imagekey'', ''zlib-level=9''])))
             (do_call_ignored env (Fprintf ''Converting to compressed format...\<newline>'' []) s2) of
        (Failed e, s3) \<Rightarrow> (Some (''hdiutil convert failed: '' @ e), s3)
      | (Done output, s3) \<Rightarrow>
          (None, do_call_ignored env
                   (Fprintf ''DMG created successfully: %s\<newline>'' [Str (FileName config)])
                   (if Icon config \<noteq> []
                    then snd (setFileIcon env (FileName config) (Icon config) s3) else s3)))))"

definition CreateDMGLikeBash ::
  "'w env \<Rightarrow> (path \<Rightarrow> fsnode) \<Rightarrow> Config \<Rightarrow> 'w st \<Rightarrow> string option \<times> 'w st" where
  "CreateDMGLikeBash env fs config s =
     (let config = normalizeFileName config;
          tempDMG = Join (Dir_of (FileName config)) (''temp_'' @ Base (FileName config))
      in case sumDirItems env fs (Contents config) 0 s of
           (totalSize, s1) \<Rightarrow>
             (let sizeMB = likeBashSizeMB totalSize;
                  s2 = do_call_ignored env (Fprintf ''Creating DMG with size: %dMB\<newline>'' [Num sizeMB]) s1;
                  mainAppPath = findMainApp (Contents config)
              in case (if mainAppPath = [] then (Some ''no .app directory found in contents'', s2)
                       else likeBash_build env config tempDMG mainAppPath sizeMB
                              (do_call_ignored env
                                 (Fprintf ''Creating temporary DMG from %s\<newline>'' [Str mainAppPath]) s2)) of
                   (r, s3) \<Rightarrow> (r, do_call_ignored env (Remove tempDMG) s3)))"

section \<open>Notions used to state the properties\<close>

text \<open>
  \<open>emits P s s'\<close>: the trace of \<open>s'\<close> is the trace of \<open>s\<close> followed by calls that all
  satisfy \<open>P\<close>. With the predicate that holds of every call it says that the trace has
  grown.
\<close>

definition emits :: "(call \<Rightarrow> bool) \<Rightarrow> 'w st \<Rightarrow> 'w st \<Rightarrow> bool" where
  "emits P s s' = (\<exists>post. snd s' = snd s @ post \<and> list_all (\<lambda>x. P (fst x)) post)"

definition any_call :: "call \<Rightarrow> bool" where
  "any_call c = True"

definition is_walk_call :: "call \<Rightarrow> bool" where
  "is_walk_call c = (case c of Lstat p \<Rightarrow> True | ReadDir p \<Rightarrow> True | _ \<Rightarrow> False)"

text \<open>The calls that create an image file.\<close>

definition creates_image :: "call \<Rightarrow> bool" where
  "creates_image c =
     (case c of HdiutilCreate t d f out \<Rightarrow> True
              | HdiutilCreateWithSize t d f out n \<Rightarrow> True
              | HdiutilConvert src f out \<Rightarrow> True
              | Exec cmd args \<Rightarrow> cmd = ''hdiutil''
              | _ \<Rightarrow> False)"

text \<open>An item that \<open>CreateDMGLikeBash\<close> takes for an application bundle.\<close>

definition isAppItem :: "Item \<Rightarrow> bool" where
  "isAppItem item = (Type item = Dir \<and> HasSuffix (Path item) ''.app'')"

text \<open>
  The bytes of the entries of a tree that are not directories, and their sum over the
  items of type \<open>Dir\<close> of a contents list.
\<close>

fun fileBytes :: "fsnode \<Rightarrow> nat"
  and fileBytes_entries :: "(string \<times> fsnode) list \<Rightarrow> nat" where
  "fileBytes (FileNode n) = n"
| "fileBytes (DirNode es) = fileBytes_entries es"
| "fileBytes_entries [] = 0"
| "fileBytes_entries ((name, node) # rest) = fileBytes node + fileBytes_entries rest"

fun dirItemsBytes :: "(path \<Rightarrow> fsnode) \<Rightarrow> Item list \<Rightarrow> nat" where
  "dirItemsBytes fs [] = 0"
| "dirItemsBytes fs (item # rest) =
     (if Type item = Dir then fileBytes (fs (Path item)) else 0) + dirItemsBytes fs rest"

text \<open>An environment in which no \<open>Lstat\<close> and no \<open>ReadDir\<close> fails, so that no walk ends early.\<close>

definition walks_never_fail :: "'w env \<Rightarrow> bool" where
  "walks_never_fail env =
     (\<forall>p w. (\<exists>x. fst (env (Lstat p) w) = Done x) \<and> (\<exists>x. fst (env (ReadDir p) w) = Done x))"

text \<open>
  The two estimates as the specification words them, for content of \<open>S\<close> bytes:
  \<open>clamp(ceil(S/1MiB) \<times> 1.5, 200, 2000)\<close> and \<open>max(ceil(S/1MiB) \<times> 1.2, 100)\<close>.
\<close>

definition spec_conservative_MB :: "int \<Rightarrow> real" where
  "spec_conservative_MB S = max 200 (min 2000 (real_of_int \<lceil>real_of_int S / 1048576\<rceil> * 1.5))"

definition spec_lean_MB :: "int \<Rightarrow> real" where
  "spec_lean_MB S = max (real_of_int \<lceil>real_of_int S / 1048576\<rceil> * 1.2) 100"




text \<open>
  The calls that write below a destination, and the calls of that kind that put a staged
  tree at a destination path: a directory is made and filled entry by entry; a copy makes
  the directory of the file, creates the file and fills it; a link is one call.
\<close>

definition is_dest_call :: "call \<Rightarrow> bool" where
  "is_dest_call c =
     (case c of MkdirAll p \<Rightarrow> True | CreateFile p \<Rightarrow> True | CopyBuffer d p \<Rightarrow> True
              | OsLink p d \<Rightarrow> True | OsSymlink p d \<Rightarrow> True | _ \<Rightarrow> False)"


text \<open>
  The calls of a piece of trace that write below a destination and succeeded, in order;
  a call that makes an entry at a path; a piece of trace in which an entry was made at a
  path; an item whose type is one of the three constants.
\<close>

definition done_dest :: "trace \<Rightarrow> call list" where
  "done_dest tr =
     map fst (filter (\<lambda>x. is_dest_call (fst x) \<and> (case snd x of Done v \<Rightarrow> True | Failed e \<Rightarrow> False)) tr)"

definition creates_at :: "call \<Rightarrow> path \<Rightarrow> bool" where
  "creates_at c p =
     (case c of MkdirAll d \<Rightarrow> d = p | CreateFile d \<Rightarrow> d = p
              | OsLink src d \<Rightarrow> d = p | OsSymlink src d \<Rightarrow> d = p | _ \<Rightarrow> False)"

definition materialized :: "trace \<Rightarrow> path \<Rightarrow> bool" where
  "materialized tr p = list_ex (\<lambda>x. creates_at (fst x) p \<and> (case snd x of Done v \<Rightarrow> True | Failed e \<Rightarrow> False)) tr"

definition validType :: "Item \<Rightarrow> bool" where
  "validType item = (Type item = Dir \<or> Type item = File \<or> Type item = Link)"

section \<open>Concrete environments\<close>

text \<open>
  An environment without state in which every \<open>Detach\<close> fails (the volume stays busy),
  \<open>hdiutil info\<close> lists one volume of the image, and every other call succeeds.
\<close>

definition env_detach_busy :: "unit env" where
  "env_detach_busy c w =
     (case c of
        MkdirTemp d pat \<Rightarrow> (Done ''/tmp/1-zapp-dmg'', w)
      | Detach m \<Rightarrow> (Failed ''resource busy'', w)
      | HdiutilInfo \<Rightarrow> (Done ''/dev/disk4s1 Apple_HFS /Volumes/App a.dmg'', w)
      | _ \<Rightarrow> (Done [], w))"

text \<open>A customization callback that fails without touching the world.\<close>

definition failing_process :: "unit process" where
  "failing_process dmgFilePath mountPoint s = (Some ''customize failed'', s)"

text \<open>An environment without state in which every \<open>Attach\<close> fails.\<close>

definition env_attach_fails :: "unit env" where
  "env_attach_fails c w =
     (case c of
        MkdirTemp d pat \<Rightarrow> (Done ''/tmp/1-zapp-dmg'', w)
      | UnixNano \<Rightarrow> (Done ''1'', w)
      | Attach p m \<Rightarrow> (Failed ''image not recognized'', w)
      | _ \<Rightarrow> (Done [], w))"

text \<open>A configuration with a volume icon, every other field at the zero value of Go.\<close>

definition config_zero :: Config where
  "config_zero = \<lparr>FileName = [], Title = [], Icon = [], LabelSize = 0, ContentsIconSize = 0,
     WindowWidth = 0, WindowHeight = 0, Background = [], Contents = [], LogWriter = False,
     Format = [], CompressionLevel = [], UseHardLinks = False, OptimizeAppSize = False\<rparr>"

definition config_icon :: Config where
  "config_icon = config_zero\<lparr>FileName := ''out/App.dmg'', Title := ''App'',
     Icon := ''app.icns'', Format := UDZO\<rparr>"

text \<open>An environment without state in which every call succeeds.\<close>

definition env_ok :: "unit env" where
  "env_ok c w =
     (case c of
        MkdirTemp d pat \<Rightarrow> (Done ''/tmp/1-zapp-dmg'', w)
      | UnixNano \<Rightarrow> (Done ''1'', w)
      | _ \<Rightarrow> (Done [], w))"

text \<open>A file system in which every path is an empty directory.\<close>

definition fs_empty :: "path \<Rightarrow> fsnode" where
  "fs_empty p = DirNode []"

text \<open>Contents without an application bundle, and contents with two of them.\<close>

definition config_no_app :: Config where
  "config_no_app = config_zero\<lparr>FileName := ''App.dmg'', Title := ''App'',
     Contents := [\<lparr>X = 0, Y = 0, Type = File, Path = ''notes.txt''\<rparr>,
                  \<lparr>X = 0, Y = 0, Type = Link, Path = ''/Applications''\<rparr>]\<rparr>"

definition config_two_apps :: Config where
  "config_two_apps = config_zero\<lparr>FileName := ''App.dmg'', Title := ''App'',
     Contents := [\<lparr>X = 0, Y = 0, Type = File, Path = ''notes.txt''\<rparr>,
                  \<lparr>X = 0, Y = 0, Type = Dir, Path = ''A.app''\<rparr>,
                  \<lparr>X = 0, Y = 0, Type = Dir, Path = ''B.app''\<rparr>]\<rparr>"

text \<open>
  A configuration that asks for hard links and leaves the file name and the format
  unset, and one that asks for a read-only image with a volume icon.
\<close>

definition config_hard_links :: Config where
  "config_hard_links = config_zero\<lparr>Title := ''App'', UseHardLinks := True\<rparr>"

definition config_icon_udro :: Config where
  "config_icon_udro = config_zero\<lparr>FileName := ''out/App.dmg'', Title := ''App'',
     Icon := ''app.icns'', Format := UDRO\<rparr>"

text \<open>
  An application bundle whose only file has 200 MiB and one byte, and a staged directory
  whose only file has 100 MiB and one byte.
\<close>

definition fs_big_app :: "path \<Rightarrow> fsnode" where
  "fs_big_app p = DirNode [(''Contents'', DirNode [(''payload'', FileNode 209715201)])]"

definition config_big_app :: Config where
  "config_big_app = config_zero\<lparr>FileName := ''App.dmg'', Title := ''App'',
     Contents := [\<lparr>X = 0, Y = 0, Type = Dir, Path = ''A.app''\<rparr>]\<rparr>"

definition staged_big :: fsnode where
  "staged_big = DirNode [(''payload'', FileNode 104857601)]"

text \<open>
  An application bundle with a \<open>.DS_Store\<close> file, a \<open>__MACOSX\<close> directory, a log file and
  a \<open>Contents\<close> directory that holds a binary and another \<open>.DS_Store\<close>; and a bundle whose
  only entry is a symbolic link that points nowhere.
\<close>

definition bundle_tree :: fsnode where
  "bundle_tree = DirNode
     [(''.DS_Store'', FileNode 6148),
      (''Contents'', DirNode [(''.DS_Store'', FileNode 6148), (''app'', FileNode 1000)]),
      (''__MACOSX'', DirNode [(''x'', FileNode 1)]),
      (''build.log'', FileNode 10)]"



text \<open>
  A hard-link build of one file into a read-only image, and a file system in which the
  traversal of any path finds the staged tree above.
\<close>

definition config_safe :: Config where
  "config_safe = config_zero\<lparr>FileName := ''out/App.dmg'', Title := ''App'', Format := UDRO,
     UseHardLinks := True,
     Contents := [\<lparr>X = 0, Y = 0, Type = File, Path = ''notes.txt''\<rparr>]\<rparr>"

definition fs_staged :: "path \<Rightarrow> fsnode" where
  "fs_staged p = staged_big"

text \<open>
  Contents with an item whose type is none of the three constants, and contents with a
  bundle, a file and a link.
\<close>

definition items_unknown_type :: "Item list" where
  "items_unknown_type = [\<lparr>X = 0, Y = 0, Type = ''folder'', Path = ''A.app''\<rparr>]"

definition items_three :: "Item list" where
  "items_three = [\<lparr>X = 0, Y = 0, Type = Dir, Path = ''build/A.app''\<rparr>,
                  \<lparr>X = 0, Y = 0, Type = File, Path = ''docs/notes.txt''\<rparr>,
                  \<lparr>X = 0, Y = 0, Type = Link, Path = ''/Applications''\<rparr>]"

definition fs_bundle :: "path \<Rightarrow> fsnode" where
  "fs_bundle p = bundle_tree"

section \<open>Traces\<close>

lemma emits_refl: "emits P s s"
  by (simp add: emits_def)

lemma emits_trans: "emits P s s1 \<Longrightarrow> emits P s1 s2 \<Longrightarrow> emits P s s2"
  by (auto simp: emits_def)

lemma emits_mono: "emits P s s' \<Longrightarrow> (\<And>c. P c \<Longrightarrow> Q c) \<Longrightarrow> emits Q s s'"
  by (auto simp: emits_def list_all_iff)

lemma emits_do_call: "do_call env c s = (r, s') \<Longrightarrow> P c \<Longrightarrow> emits P s s'"
  by (auto simp: emits_def do_call_def split: prod.splits)

lemma emits_do_call_ignored: "P c \<Longrightarrow> emits P s (do_call_ignored env c s)"
  by (auto simp: emits_def do_call_ignored_def do_call_def split: prod.splits)

lemma is_walk_call_simps: "is_walk_call (Lstat p)" "is_walk_call (ReadDir p)"
  by (simp_all add: is_walk_call_def)

lemma walk_emits:
  "walk env p node t s = (r, s') \<Longrightarrow> emits is_walk_call s s'"
  "walk_entries env p es t s = (r, s') \<Longrightarrow> emits is_walk_call s s'"
proof (induction env p node t s and env p es t s arbitrary: r s' and r s' rule: walk_walk_entries.induct)
  case (1 env p n totalSize s)
  then show ?case by (auto simp: emits_refl)
next
  case (2 env p es totalSize s)
  obtain r0 s1 where dc: "do_call env (ReadDir p) s = (r0, s1)"
    by (cases "do_call env (ReadDir p) s")
  have e1: "emits is_walk_call s s1" by (rule emits_do_call [OF dc]) (rule is_walk_call_simps)
  show ?case
  proof (cases r0)
    case (Done x)
    with "2.prems" dc have "walk_entries env p es totalSize s1 = (r, s')" by simp
    then have "emits is_walk_call s1 s'" using "2.IH" dc Done by simp
    with e1 show ?thesis by (rule emits_trans)
  next
    case (Failed e)
    with "2.prems" dc have "s' = s1" by simp
    with e1 show ?thesis by simp
  qed
next
  case (3 env p totalSize s)
  then show ?case by (auto simp: emits_refl)
next
  case (4 env p name node rest totalSize s)
  obtain r0 s1 where dc: "do_call env (Lstat (Join p name)) s = (r0, s1)"
    by (cases "do_call env (Lstat (Join p name)) s")
  have e1: "emits is_walk_call s s1" by (rule emits_do_call [OF dc]) (rule is_walk_call_simps)
  show ?case
  proof (cases r0)
    case (Failed e)
    with "4.prems" dc have "s' = s1" by (simp add: Let_def)
    with e1 show ?thesis by simp
  next
    case (Done x)
    obtain ro t1 s2 where w: "walk env (Join p name) node totalSize s1 = ((ro, t1), s2)"
      by (metis surj_pair)
    have e2: "emits is_walk_call s1 s2" using "4.IH"(1) dc Done w by simp
    show ?thesis
    proof (cases ro)
      case (Some e)
      with "4.prems" dc Done w have "s' = s2" by (simp add: Let_def)
      with e1 e2 show ?thesis by (auto intro: emits_trans)
    next
      case None
      with "4.prems" dc Done w have "walk_entries env p rest t1 s2 = (r, s')" by (simp add: Let_def)
      then have "emits is_walk_call s2 s'" using "4.IH"(2) dc Done w None by simp
      with e1 e2 show ?thesis by (auto intro: emits_trans)
    qed
  qed
qed

lemma Walk_emits:
  assumes "Walk env rootPath node t s = (r, s')"
  shows "emits is_walk_call s s'"
proof -
  obtain r0 s1 where dc: "do_call env (Lstat rootPath) s = (r0, s1)"
    by (cases "do_call env (Lstat rootPath) s")
  have e1: "emits is_walk_call s s1" by (rule emits_do_call [OF dc]) (rule is_walk_call_simps)
  show ?thesis
  proof (cases r0)
    case (Failed e)
    with assms dc have "s' = s1" by (simp add: Walk_def)
    with e1 show ?thesis by simp
  next
    case (Done x)
    with assms dc have "walk env rootPath node t s1 = (r, s')" by (simp add: Walk_def)
    then have "emits is_walk_call s1 s'" by (rule walk_emits(1))
    with e1 show ?thesis by (rule emits_trans)
  qed
qed

lemma sumDirItems_emits: "sumDirItems env fs items t s = (r, s') \<Longrightarrow> emits is_walk_call s s'"
proof (induction items arbitrary: t s)
  case Nil
  then show ?case by (simp add: emits_refl)
next
  case (Cons item rest)
  show ?case
  proof (cases "Type item = Dir")
    case True
    obtain ro t1 s1 where w: "Walk env (Path item) (fs (Path item)) t s = ((ro, t1), s1)"
      by (metis surj_pair)
    with Cons.prems True have "sumDirItems env fs rest t1 s1 = (r, s')" by simp
    then have "emits is_walk_call s1 s'" by (rule Cons.IH)
    with Walk_emits [OF w] show ?thesis by (rule emits_trans)
  next
    case False
    with Cons show ?thesis by simp
  qed
qed

lemma do_call_trace: "do_call env c s = (r, s') \<Longrightarrow> snd s' = snd s @ [(c, r)]"
  by (auto simp: do_call_def split: prod.splits)

lemma do_call_grows: "do_call env c s = (r, s') \<Longrightarrow> emits any_call s s'"
  by (rule emits_do_call) (simp_all add: any_call_def)

lemma do_call_ignored_grows: "emits any_call s (do_call_ignored env c s)"
  by (rule emits_do_call_ignored) (simp add: any_call_def)

lemma growsD: "emits any_call s s' \<Longrightarrow> \<exists>post. snd s' = snd s @ post"
  by (auto simp: emits_def)

lemma growsI: "take (length (snd s)) (snd s') = snd s \<Longrightarrow> emits any_call s s'"
  by (auto simp: emits_def any_call_def list_all_iff intro: exI [of _ "drop (length (snd s)) (snd s')"])
     (metis append_take_drop_id)

lemma do_call_ignored_snd:
  "snd (do_call_ignored env c s) = snd s @ [(c, fst (env c (fst s)))]"
  by (auto simp: do_call_ignored_def do_call_def split: prod.splits)

lemma copyFile_grows: "copyFile env src dst s = (r, s') \<Longrightarrow> emits any_call s s'"
  by (auto simp: copyFile_def split: prod.splits reply.splits
      dest!: do_call_trace intro!: growsI)

lemma setDMGIcon_grows: "setDMGIcon env m i s = (r, s') \<Longrightarrow> emits any_call s s'"
  by (auto simp: setDMGIcon_def Let_def split: prod.splits reply.splits option.splits
      dest!: do_call_trace copyFile_grows [THEN growsD] intro!: growsI)

lemma setFileIcon_body_grows: "setFileIcon_body env t d i s = (r, s') \<Longrightarrow> emits any_call s s'"
  by (auto simp: setFileIcon_body_def Let_def split: prod.splits reply.splits option.splits
      dest!: do_call_trace copyFile_grows [THEN growsD] intro!: growsI)

lemma setFileIcon_grows: "setFileIcon env d i s = (r, s') \<Longrightarrow> emits any_call s s'"
  by (auto simp: setFileIcon_def do_call_ignored_snd split: prod.splits reply.splits
      dest!: do_call_trace setFileIcon_body_grows [THEN growsD] intro!: growsI)

lemma emitsI:
  "take (length (snd s)) (snd s') = snd s
   \<Longrightarrow> list_all (\<lambda>x. P (fst x)) (drop (length (snd s)) (snd s')) \<Longrightarrow> emits P s s'"
  unfolding emits_def by (metis append_take_drop_id)

lemma emitsD: "emits P s s' \<Longrightarrow> \<exists>post. snd s' = snd s @ post \<and> list_all (\<lambda>x. P (fst x)) post"
  by (simp add: emits_def)

lemma forceDetach_lines_grows: "emits any_call s (forceDetach_lines env p ls s)"
proof (induction ls arbitrary: s)
  case Nil
  then show ?case by (simp add: emits_refl)
next
  case (Cons l ls)
  show ?case
    by (auto simp: Let_def intro: Cons.IH emits_trans [OF do_call_ignored_grows Cons.IH])
qed

lemma forceDetachDMG_grows: "emits any_call s (forceDetachDMG env p s)"
proof -
  obtain r0 s1 where dc: "do_call env HdiutilInfo s = (r0, s1)"
    by (cases "do_call env HdiutilInfo s")
  show ?thesis
    using do_call_grows [OF dc] dc
    by (cases r0) (auto simp: forceDetachDMG_def intro: emits_trans forceDetach_lines_grows)
qed

lemma detachDeferred_grows: "emits any_call s (detachDeferred env p m s)"
proof -
  obtain r0 s1 where dc: "do_call env (Detach m) s = (r0, s1)"
    by (cases "do_call env (Detach m) s")
  show ?thesis
    using do_call_grows [OF dc] dc
    by (cases r0)
       (auto simp: detachDeferred_def
             intro: emits_trans [OF _ emits_trans [OF do_call_ignored_grows forceDetachDMG_grows]])
qed

lemma tmpMount_grows:
  assumes p: "\<And>a b s0 r0 s1. process a b s0 = (r0, s1) \<Longrightarrow> emits any_call s0 s1"
    and t: "tmpMount env dmg process s = (r, s')"
  shows "emits any_call s s'"
proof -
  obtain r0 s1 where mk: "do_call env (MkdirTemp '''' ''*-zapp-dmg'') s = (r0, s1)"
    by (cases "do_call env (MkdirTemp '''' ''*-zapp-dmg'') s")
  note g1 = do_call_grows [OF mk]
  show ?thesis
  proof (cases r0)
    case (Failed e)
    with t mk g1 show ?thesis by (simp add: tmpMount_def)
  next
    case (Done tempDir)
    obtain r1 s2 where at: "do_call env (Attach dmg (Join tempDir ''mount'')) s1 = (r1, s2)"
      by (cases "do_call env (Attach dmg (Join tempDir ''mount'')) s1")
    note g2 = emits_trans [OF g1 do_call_grows [OF at]]
    show ?thesis
    proof (cases r1)
      case (Failed e)
      with t mk Done at have "s' = do_call_ignored env (RemoveAll tempDir) s2"
        by (simp add: tmpMount_def Let_def)
      then show ?thesis using emits_trans [OF g2 do_call_ignored_grows] by simp
    next
      case (Done x)
      obtain r2 s3 where pr: "process dmg (Join tempDir ''mount'') s2 = (r2, s3)"
        by (cases "process dmg (Join tempDir ''mount'') s2")
      from t mk \<open>r0 = Done tempDir\<close> at Done pr
      have "s' = do_call_ignored env (RemoveAll tempDir)
                   (detachDeferred env dmg (Join tempDir ''mount'') s3)"
        by (simp add: tmpMount_def Let_def)
      then show ?thesis
        using g2 p [OF pr] detachDeferred_grows do_call_ignored_grows
        by (metis emits_trans)
    qed
  qed
qed

lemma customizeLikeBash_grows:
  "customizeLikeBash env config a b s = (r, s') \<Longrightarrow> emits any_call s s'"
  by (auto simp: customizeLikeBash_def Let_def split: prod.splits reply.splits option.splits if_splits
      dest!: do_call_trace copyFile_grows [THEN growsD] setDMGIcon_grows [THEN growsD]
      intro!: growsI)

lemma grows_take: "emits any_call s s' \<Longrightarrow> n \<le> length (snd s) \<Longrightarrow> take n (snd s') = take n (snd s)"
  by (auto simp: emits_def)

lemma setFileIcon_take:
  "n \<le> length (snd s) \<Longrightarrow> take n (snd (snd (setFileIcon env d i s))) = take n (snd s)"
  by (cases "setFileIcon env d i s") (auto dest!: setFileIcon_grows grows_take)

lemma grows_length: "emits any_call s s' \<Longrightarrow> n \<le> length (snd s) \<Longrightarrow> n \<le> length (snd s')"
  by (auto simp: emits_def)

lemma setFileIcon_length:
  "n \<le> length (snd s) \<Longrightarrow> n \<le> length (snd (snd (setFileIcon env d i s)))"
  by (cases "setFileIcon env d i s") (auto dest!: setFileIcon_grows grows_length)

lemma tmpMount_likeBash_grows:
  "tmpMount env tempDMG (customizeLikeBash env config) s0 = (r0, s1)
     \<Longrightarrow> \<exists>post. snd s1 = snd s0 @ post"
  by (rule growsD, rule tmpMount_grows [OF customizeLikeBash_grows])

lemma likeBash_build_grows:
  assumes "likeBash_build env config tempDMG app sizeMB s = (r, s')"
  shows "emits any_call s s'"
  using assms
  by (auto simp: likeBash_build_def do_call_ignored_snd setFileIcon_take setFileIcon_length
      split: prod.splits reply.splits option.splits if_splits
      dest!: do_call_trace tmpMount_likeBash_grows
      intro!: growsI)

lemma likeBash_build_first_call:
  assumes "likeBash_build env config tempDMG app sizeMB s = (r, s')"
  shows "\<exists>r0. take (Suc (length (snd s))) (snd s')
           = snd s @ [(HdiutilCreateWithSize (Title config) app UDRW tempDMG sizeMB, r0)]"
  using assms
  by (auto simp: likeBash_build_def do_call_ignored_snd setFileIcon_take setFileIcon_length
      split: prod.splits reply.splits option.splits if_splits
      dest!: do_call_trace tmpMount_likeBash_grows)

lemma findMainApp_none: "list_all (\<lambda>i. \<not> isAppItem i) items \<Longrightarrow> findMainApp items = []"
  by (induction items) (auto simp: isAppItem_def)

lemma isAppItem_Path: "isAppItem item \<Longrightarrow> Path item \<noteq> []"
  by (auto simp: isAppItem_def HasSuffix_def)

lemma findMainApp_first:
  "list_all (\<lambda>i. \<not> isAppItem i) pre \<Longrightarrow> isAppItem item
   \<Longrightarrow> findMainApp (pre @ item # post) = Path item"
  by (induction pre) (auto simp: isAppItem_def)

lemma Contents_normalizeFileName [simp]: "Contents (normalizeFileName config) = Contents config"
  by (simp add: normalizeFileName_def Let_def)

lemma Title_normalizeFileName [simp]: "Title (normalizeFileName config) = Title config"
  by (simp add: normalizeFileName_def Let_def)

lemma walk_call_not_create: "is_walk_call c \<Longrightarrow> \<not> creates_image c"
  by (cases c) (auto simp: is_walk_call_def creates_image_def)


subsection \<open>Rounding to 53 significant bits\<close>

lemma bitlen_nat_le: "n < 2 ^ b \<Longrightarrow> bitlen_nat n \<le> b"
proof (induction n arbitrary: b rule: bitlen_nat.induct)
  case (1 n)
  show ?case
  proof (cases "n = 0")
    case True
    then show ?thesis by (simp add: bitlen_nat.simps)
  next
    case False
    with "1.prems" obtain c where b: "b = Suc c" by (cases b) auto
    have "n div 2 < 2 ^ c" using "1.prems" b by auto
    then have "bitlen_nat (n div 2) \<le> c" using "1.IH" False by blast
    then show ?thesis using False b by (subst bitlen_nat.simps) simp
  qed
qed

lemma round_sig53_small: "n < 2 ^ 53 \<Longrightarrow> round_sig53 n = n"
  by (simp add: round_sig53_def)

lemma round_up_le:
  fixes n sh :: nat
  shows "(if n mod 2 ^ sh > 2 ^ (sh - 1) \<or> (n mod 2 ^ sh = 2 ^ (sh - 1) \<and> odd (n div 2 ^ sh))
          then n div 2 ^ sh + 1 else n div 2 ^ sh) * 2 ^ sh \<le> n + 2 ^ (sh - 1)"
proof (cases sh)
  case 0
  then show ?thesis by simp
next
  case (Suc t)
  have d: "n div 2 ^ sh * 2 ^ sh + n mod 2 ^ sh = n" by (rule div_mult_mod_eq)
  have p: "(2::nat) ^ sh = 2 * 2 ^ (sh - 1)" using Suc by simp
  show ?thesis
  proof (cases "n mod 2 ^ sh \<ge> 2 ^ (sh - 1)")
    case True
    have "(n div 2 ^ sh + 1) * 2 ^ sh = n div 2 ^ sh * 2 ^ sh + 2 ^ sh" by (simp add: algebra_simps)
    also have "\<dots> \<le> n div 2 ^ sh * 2 ^ sh + n mod 2 ^ sh + 2 ^ (sh - 1)" using True p by linarith
    also have "\<dots> = n + 2 ^ (sh - 1)" using d by simp
    finally have "(n div 2 ^ sh + 1) * 2 ^ sh \<le> n + 2 ^ (sh - 1)" .
    moreover have "n div 2 ^ sh * 2 ^ sh \<le> n + 2 ^ (sh - 1)" using d by linarith
    ultimately show ?thesis by simp
  next
    case False
    have "n div 2 ^ sh * 2 ^ sh \<le> n + 2 ^ (sh - 1)" using d by linarith
    with False show ?thesis by auto
  qed
qed

lemma round_sig53_div:
  assumes n: "n < 2 ^ 96" and lo: "k * 2 ^ 54 \<le> n" and hi: "n + 2 ^ 42 < (k + 1) * 2 ^ 54"
  shows "round_sig53 n div 2 ^ 54 = k"
proof (cases "n < 2 ^ 53")
  case True
  then have "round_sig53 n = n" by (rule round_sig53_small)
  moreover have "n < (k + 1) * 2 ^ 54" using hi by simp
  ultimately show ?thesis using lo by (simp add: div_nat_eqI)
next
  case False
  define sh where "sh = bitlen_nat n - 53"
  have sh: "sh \<le> 43" using bitlen_nat_le [OF n] by (simp add: sh_def)
  define q where "q = (if n mod 2 ^ sh > 2 ^ (sh - 1) \<or> (n mod 2 ^ sh = 2 ^ (sh - 1) \<and> odd (n div 2 ^ sh))
          then n div 2 ^ sh + 1 else n div 2 ^ sh)"
  define P :: nat where "P = 2 ^ (54 - sh)"
  define T :: nat where "T = 2 ^ 54"
  have r: "round_sig53 n = q * 2 ^ sh"
    using False by (simp add: round_sig53_def Let_def sh_def q_def)
  have "(2::nat) ^ (sh - 1) \<le> 2 ^ 42" using sh by (intro power_increasing) auto
  moreover have "q * 2 ^ sh \<le> n + 2 ^ (sh - 1)"
    unfolding q_def by (rule round_up_le)
  ultimately have up: "q * 2 ^ sh \<le> n + 2 ^ 42" by linarith
  have ge: "n div 2 ^ sh \<le> q" by (simp add: q_def)
  have e54: "T = P * 2 ^ sh" using sh by (simp add: P_def T_def flip: power_add)
  have "k * T \<le> n" using lo by (simp add: T_def)
  moreover have "k * P * 2 ^ sh = k * T" by (simp add: e54 mult.assoc)
  ultimately have "k * P * 2 ^ sh \<le> n" by linarith
  then have "k * P \<le> n div 2 ^ sh" by (simp add: less_eq_div_iff_mult_less_eq)
  then have "k * P \<le> q" using ge by linarith
  then have "k * P * 2 ^ sh \<le> q * 2 ^ sh" by (rule mult_le_mono1)
  then have low: "k * T \<le> q * 2 ^ sh" by (simp add: e54 mult.assoc)
  have "q * 2 ^ sh < (k + 1) * T" using up hi by (simp add: T_def)
  then have b: "q * 2 ^ sh < T * Suc k" by (simp add: mult.commute)
  have a: "T * k \<le> q * 2 ^ sh" using low by (simp add: mult.commute)
  from a b have "q * 2 ^ sh div T = k" by (rule div_nat_eqI)
  then show ?thesis by (simp add: r T_def)
qed

lemma mul_half_trunc: "m < 2 ^ 43 \<Longrightarrow> round_sig53 (round_sig53 m * f64_half) div 2 ^ 54 = m div 2"
proof -
  assume m: "m < 2 ^ 43"
  then have s: "round_sig53 m = m" by (intro round_sig53_small) simp
  define k where "k = m div 2"
  define r where "r = m mod 2"
  have e: "m = 2 * k + r" by (simp add: k_def r_def)
  have r: "r \<le> 1" by (simp add: r_def)
  have "round_sig53 (m * 2 ^ 53) div 2 ^ 54 = k"
  proof (rule round_sig53_div)
    show "m * 2 ^ 53 < 2 ^ 96" using m by simp
    show "k * 2 ^ 54 \<le> m * 2 ^ 53" using e by simp
    show "m * 2 ^ 53 + 2 ^ 42 < (k + 1) * 2 ^ 54" using e r by simp
  qed
  then show ?thesis by (simp add: s f64_half_def k_def)
qed

lemma mul_fifth_trunc: "m < 2 ^ 43 \<Longrightarrow> round_sig53 (round_sig53 m * f64_fifth) div 2 ^ 54 = m div 5"
proof -
  assume m: "m < 2 ^ 43"
  then have s: "round_sig53 m = m" by (intro round_sig53_small) simp
  define k where "k = m div 5"
  define r where "r = m mod 5"
  have e: "m = 5 * k + r" by (simp add: k_def r_def)
  have r: "r \<le> 4" by (simp add: r_def)
  have "m < 2 ^ 41 * 5" using m by simp
  then have k: "k < 2 ^ 41" unfolding k_def by (rule less_mult_imp_div_less)
  have "round_sig53 (m * 3602879701896397) div 2 ^ 54 = k"
  proof (rule round_sig53_div)
    show "m * 3602879701896397 < 2 ^ 96" using m by simp
    show "k * 2 ^ 54 \<le> m * 3602879701896397" using e by simp
    show "m * 3602879701896397 + 2 ^ 42 < (k + 1) * 2 ^ 54" using e r k by simp
  qed
  then show ?thesis by (simp add: s f64_fifth_def k_def)
qed

subsection \<open>Totals of walks and sizes\<close>

lemma wrap64_id: "0 \<le> x \<Longrightarrow> x < 2 ^ 63 \<Longrightarrow> wrap64 x = x"
  by (simp add: wrap64_def)

lemma never_fail_Lstat:
  "walks_never_fail env \<Longrightarrow> \<exists>x s1. do_call env (Lstat p) s = (Done x, s1)"
  unfolding walks_never_fail_def do_call_def
  by (metis (mono_tags, lifting) case_prod_beta fst_conv)

lemma never_fail_ReadDir:
  "walks_never_fail env \<Longrightarrow> \<exists>x s1. do_call env (ReadDir p) s = (Done x, s1)"
  unfolding walks_never_fail_def do_call_def
  by (metis (mono_tags, lifting) case_prod_beta fst_conv)

lemma walk_total:
  shows "walks_never_fail env \<Longrightarrow> 0 \<le> t \<Longrightarrow> t + int (fileBytes node) < 2 ^ 63
           \<Longrightarrow> fst (walk env p node t s) = (None, t + int (fileBytes node))"
    and "walks_never_fail env \<Longrightarrow> 0 \<le> t \<Longrightarrow> t + int (fileBytes_entries es) < 2 ^ 63
           \<Longrightarrow> fst (walk_entries env p es t s) = (None, t + int (fileBytes_entries es))"
proof (induction env p node t s and env p es t s rule: walk_walk_entries.induct)
  case (1 env p n totalSize s)
  then show ?case by (simp add: wrap64_id)
next
  case (2 env p es totalSize s)
  from never_fail_ReadDir [OF "2.prems"(1)] obtain x s1
    where dc: "do_call env (ReadDir p) s = (Done x, s1)" by blast
  show ?case using "2.IH" [OF dc [symmetric] refl] "2.prems" dc by simp
next
  case (3 env p totalSize s)
  then show ?case by simp
next
  case (4 env p name node rest totalSize s)
  from never_fail_Lstat [OF "4.prems"(1)] obtain x s1
    where dc: "do_call env (Lstat (Join p name)) s = (Done x, s1)" by blast
  have b1: "totalSize + int (fileBytes node) < 2 ^ 63" using "4.prems" by simp
  have w: "fst (walk env (Join p name) node totalSize s1) = (None, totalSize + int (fileBytes node))"
    using "4.IH"(1) [OF refl dc [symmetric] refl "4.prems"(1) "4.prems"(2) b1] .
  obtain s2 where w2: "walk env (Join p name) node totalSize s1
                         = ((None, totalSize + int (fileBytes node)), s2)"
    using w by (cases "walk env (Join p name) node totalSize s1") auto
  have "fst (walk_entries env p rest (totalSize + int (fileBytes node)) s2)
          = (None, totalSize + int (fileBytes node) + int (fileBytes_entries rest))"
    using "4.IH"(2) [OF refl dc [symmetric] refl w2 [symmetric] refl refl "4.prems"(1)] "4.prems"
    by simp
  then show ?case using dc w2 by (simp add: Let_def)
qed

lemma Walk_total:
  assumes "walks_never_fail env" "0 \<le> t" "t + int (fileBytes node) < 2 ^ 63"
  shows "fst (Walk env p node t s) = (None, t + int (fileBytes node))"
proof -
  from never_fail_Lstat [OF assms(1)] obtain x s1
    where dc: "do_call env (Lstat p) s = (Done x, s1)" by blast
  show ?thesis using dc walk_total(1) [OF assms] by (simp add: Walk_def)
qed

lemma sumDirItems_total:
  "walks_never_fail env \<Longrightarrow> 0 \<le> t \<Longrightarrow> t + int (dirItemsBytes fs items) < 2 ^ 63
   \<Longrightarrow> fst (sumDirItems env fs items t s) = t + int (dirItemsBytes fs items)"
proof (induction items arbitrary: t s)
  case Nil
  then show ?case by simp
next
  case (Cons item rest)
  show ?case
  proof (cases "Type item = Dir")
    case True
    have b: "t + int (fileBytes (fs (Path item))) < 2 ^ 63" using Cons.prems True by simp
    obtain s1 where w: "Walk env (Path item) (fs (Path item)) t s
                          = ((None, t + int (fileBytes (fs (Path item)))), s1)"
      using Walk_total [OF Cons.prems(1) Cons.prems(2) b, of "Path item" s]
      by (cases "Walk env (Path item) (fs (Path item)) t s") auto
    have "fst (sumDirItems env fs rest (t + int (fileBytes (fs (Path item)))) s1)
            = t + int (fileBytes (fs (Path item))) + int (dirItemsBytes fs rest)"
      using Cons.prems True by (intro Cons.IH) auto
    then show ?thesis using True w by simp
  next
    case False
    then show ?thesis using Cons by simp
  qed
qed

lemma tdiv_nonneg: "0 \<le> a \<Longrightarrow> 0 < b \<Longrightarrow> tdiv a b = a div b"
  by (cases "a = 0") (simp_all add: tdiv_def)

lemma f64_half_trunc: "0 \<le> m \<Longrightarrow> m < 2 ^ 43 \<Longrightarrow> f64_mul_trunc f64_half m = m div 2"
proof (cases "m = 0")
  case True
  then show ?thesis by (simp add: f64_mul_trunc_def)
next
  case False
  assume m: "0 \<le> m" "m < 2 ^ 43"
  then have n: "nat m < 2 ^ 43" by (simp add: nat_less_iff)
  have "int (round_sig53 (round_sig53 (nat m) * f64_half) div 2 ^ 54) = int (nat m div 2)"
    using mul_half_trunc [OF n] by simp
  also have "\<dots> = m div 2" using m by (simp add: zdiv_int)
  finally show ?thesis using m False by (simp add: f64_mul_trunc_def)
qed

lemma f64_fifth_trunc: "0 \<le> m \<Longrightarrow> m < 2 ^ 43 \<Longrightarrow> f64_mul_trunc f64_fifth m = m div 5"
proof (cases "m = 0")
  case True
  then show ?thesis by (simp add: f64_mul_trunc_def)
next
  case False
  assume m: "0 \<le> m" "m < 2 ^ 43"
  then have n: "nat m < 2 ^ 43" by (simp add: nat_less_iff)
  have "int (round_sig53 (round_sig53 (nat m) * f64_fifth) div 2 ^ 54) = int (nat m div 5)"
    using mul_fifth_trunc [OF n] by simp
  also have "\<dots> = m div 5" using m by (simp add: zdiv_int)
  finally show ?thesis using m False by (simp add: f64_mul_trunc_def)
qed

lemma mb_bound: "0 \<le> (x::int) \<Longrightarrow> x < 2 ^ 63 \<Longrightarrow> 0 \<le> x div 1048576 \<and> x div 1048576 < 2 ^ 43"
  by (simp add: pos_imp_zdiv_nonneg_iff)

lemma likeBashSizeMB_floor:
  assumes "0 \<le> x" "x < 2 ^ 63"
  shows "likeBashSizeMB x = max 200 (min 2000 (x div 1048576 + x div 1048576 div 2))"
  using mb_bound [OF assms] assms
  by (simp add: likeBashSizeMB_def Let_def tdiv_nonneg f64_half_trunc max_def min_def)

lemma leanSizeMB_floor:
  assumes "0 \<le> x" "x < 2 ^ 63"
  shows "leanSizeMB x = max 100 (x div 1048576 + x div 1048576 div 5)"
  using mb_bound [OF assms] assms
  by (simp add: leanSizeMB_def Let_def tdiv_nonneg f64_fifth_trunc max_def)

lemma env_ok_never_fails: "walks_never_fail env_ok"
  by (simp add: walks_never_fail_def env_ok_def)

lemma big_app_bytes: "dirItemsBytes fs_big_app (Contents config_big_app) = 209715201"
  by (simp add: config_big_app_def config_zero_def fs_big_app_def)

lemma big_app_total:
  "fst (sumDirItems env_ok fs_big_app (Contents config_big_app) 0 ((), [])) = 209715201"
  using sumDirItems_total [OF env_ok_never_fails, of 0 fs_big_app "Contents config_big_app" "((), [])"]
  by (simp add: big_app_bytes)

lemma staged_big_bytes: "fileBytes staged_big = 104857601"
  by (simp add: staged_big_def)


subsection \<open>The image created by the hard-link-safe variant\<close>

lemma grows_mem: "emits any_call s s' \<Longrightarrow> x \<in> set (snd s) \<Longrightarrow> x \<in> set (snd s')"
  by (auto simp: emits_def)

lemma do_call_mem: "do_call env c s = (r, s') \<Longrightarrow> (c, r) \<in> set (snd s')"
  by (auto simp: do_call_def split: prod.splits)

lemma customizeBackground_grows:
  "customizeBackground env config m s = (r, s') \<Longrightarrow> emits any_call s s'"
  by (auto simp: customizeBackground_def Let_def split: prod.splits reply.splits option.splits
      dest!: do_call_trace copyFile_grows [THEN growsD] intro!: growsI)

lemma customizeCompressed_grows:
  "customizeCompressed env config a b s = (r, s') \<Longrightarrow> emits any_call s s'"
  by (auto simp: customizeCompressed_def split: prod.splits option.splits if_splits
      dest!: setDMGIcon_grows [THEN growsD] customizeBackground_grows [THEN growsD]
      intro!: growsI)

lemma customizeAndConvert_grows:
  assumes "customizeAndConvert env config tempDMG s = (r, s')"
  shows "emits any_call s s'"
proof -
  define m where "m = (if Icon config \<noteq> [] \<or> Background config \<noteq> []
            then tmpMount env tempDMG (customizeCompressed env config) s else (None, s))"
  obtain r1 s1 where m1: "m = (r1, s1)" by (cases m)
  have eq: "customizeAndConvert env config tempDMG s =
     (case m of
        (Some e, s1) \<Rightarrow> (Some e, s1)
      | (None, s1) \<Rightarrow>
     (case do_call env
             (Exec ''hdiutil'' ([''convert'', tempDMG, ''-format'', Format config,
                                 ''-o'', FileName config] @ convertArgs config))
             (forceDetachDMG env tempDMG s1) of
        (Failed e, s2) \<Rightarrow> (Some (''hdiutil convert failed: '' @ e), s2)
      | (Done output, s2) \<Rightarrow> (None, s2)))"
    by (simp only: customizeAndConvert_def m_def)
  have g1: "emits any_call s s1"
  proof (cases "Icon config \<noteq> [] \<or> Background config \<noteq> []")
    case True
    then have t: "tmpMount env tempDMG (customizeCompressed env config) s = (r1, s1)"
      using m1 by (simp add: m_def)
    show ?thesis
    proof (rule tmpMount_grows)
      show "\<And>a b s0 r0 s1. customizeCompressed env config a b s0 = (r0, s1)
              \<Longrightarrow> emits any_call s0 s1"
        by (rule customizeCompressed_grows)
      show "tmpMount env tempDMG (customizeCompressed env config) s = (r1, s1)" by (rule t)
    qed
  next
    case False
    then show ?thesis using m1 by (simp add: m_def emits_refl)
  qed
  show ?thesis
  proof (cases r1)
    case (Some e)
    then have "s' = s1" using assms m1 by (simp add: eq)
    then show ?thesis using g1 by simp
  next
    case None
    obtain r2 s2 where c: "do_call env
             (Exec ''hdiutil'' ([''convert'', tempDMG, ''-format'', Format config,
                                 ''-o'', FileName config] @ convertArgs config))
             (forceDetachDMG env tempDMG s1) = (r2, s2)"
      by (cases "do_call env
             (Exec ''hdiutil'' ([''convert'', tempDMG, ''-format'', Format config,
                                 ''-o'', FileName config] @ convertArgs config))
             (forceDetachDMG env tempDMG s1)")
    have "s' = s2" using assms m1 None c
      by (cases r2) (simp_all add: eq)
    moreover have "emits any_call s s2"
      by (rule emits_trans [OF g1 emits_trans [OF forceDetachDMG_grows do_call_grows [OF c]]])
    ultimately show ?thesis by simp
  qed
qed

lemma createCompressedDMGWithSize_create_call:
  "\<exists>t r0. (HdiutilCreateWithSize (Title config) dir UDRW (tempName t (FileName config)) sizeMB, r0)
            \<in> set (snd (snd (createCompressedDMGWithSize env config dir sizeMB s)))"
proof -
  obtain t s0 where n: "unixNano env s = (t, s0)" by (cases "unixNano env s")
  let ?tmp = "tempName t (FileName config)"
  obtain r0 s1 where c: "do_call env (HdiutilCreateWithSize (Title config) dir UDRW ?tmp sizeMB) s0
                           = (r0, s1)"
    by (cases "do_call env (HdiutilCreateWithSize (Title config) dir UDRW ?tmp sizeMB) s0")
  note mem = do_call_mem [OF c]
  have "\<exists>s2. snd (createCompressedDMGWithSize env config dir sizeMB s)
              = do_call_ignored env (Remove ?tmp) s2 \<and> emits any_call s1 s2"
  proof (cases r0)
    case (Failed e)
    then show ?thesis using n c
      by (intro exI [of _ s1]) (simp add: createCompressedDMGWithSize_def Let_def emits_refl)
  next
    case (Done x)
    obtain r2 s2 where cc: "customizeAndConvert env config ?tmp s1 = (r2, s2)"
      by (cases "customizeAndConvert env config ?tmp s1")
    show ?thesis using n c Done cc customizeAndConvert_grows [OF cc]
      by (intro exI [of _ s2]) (simp add: createCompressedDMGWithSize_def Let_def)
  qed
  then obtain s2 where r: "snd (createCompressedDMGWithSize env config dir sizeMB s)
              = do_call_ignored env (Remove ?tmp) s2" and g: "emits any_call s1 s2" by blast
  have "(HdiutilCreateWithSize (Title config) dir UDRW ?tmp sizeMB, r0) \<in> set (snd s2)"
    by (rule grows_mem [OF g mem])
  then have "(HdiutilCreateWithSize (Title config) dir UDRW ?tmp sizeMB, r0)
               \<in> set (snd (snd (createCompressedDMGWithSize env config dir sizeMB s)))"
    by (simp add: r do_call_ignored_snd)
  then show ?thesis by blast
qed

lemma setFileIcon_snd_grows: "emits any_call s (snd (setFileIcon env d i s))"
  by (cases "setFileIcon env d i s") (auto dest: setFileIcon_grows)

lemma calculateDirSize_value:
  assumes ok: "walks_never_fail env"
    and bound: "int (fileBytes node) < 2 ^ 63"
  shows "fst (calculateDirSize env dir node s)
           = Inr (max 100 (int (fileBytes node) div 1048576 + int (fileBytes node) div 1048576 div 5))"
proof -
  have "fst (Walk env dir node 0 s) = (None, int (fileBytes node))"
    using Walk_total [OF ok, of 0 node dir s] bound by simp
  then obtain s1 where w: "Walk env dir node 0 s = ((None, int (fileBytes node)), s1)"
    by (cases "Walk env dir node 0 s") auto
  show ?thesis
    using w bound by (simp add: calculateDirSize_def leanSizeMB_floor)
qed


subsection \<open>The smart copy\<close>








lemma is_dest_simps [simp]:
  "is_dest_call (MkdirAll p)" "is_dest_call (CreateFile p)" "is_dest_call (CopyBuffer d p)"
  "is_dest_call (OsLink p d)" "is_dest_call (OsSymlink p d)"
  "\<not> is_dest_call (Stat p)" "\<not> is_dest_call (ReadDir p)" "\<not> is_dest_call (OpenFile p)"
  by (simp_all add: is_dest_call_def)




section \<open>Properties\<close>

text \<open>
  C1. When the temporary directory is made and \<open>Attach\<close> succeeds, \<open>tmpMount\<close> returns
  exactly what the callback returned at the mount point, whatever the primary
  \<open>Detach\<close>, \<open>hdiutil info\<close> and the secondary detaches of the forced-detach pass answer:
  their failures are printed or dropped and never reach the caller.
\<close>

theorem tmpMount_returns_callback_result:
  assumes "do_call env (MkdirTemp '''' ''*-zapp-dmg'') s = (Done tempDir, s1)"
    and "do_call env (Attach dmgPath (Join tempDir ''mount'')) s1 = (Done x, s2)"
  shows "fst (tmpMount env dmgPath process s) = fst (process dmgPath (Join tempDir ''mount'') s2)"
  using assms by (simp add: tmpMount_def Let_def split: prod.splits)

theorem tmpMount_returns_callback_result_witness:
  "fst (tmpMount env_detach_busy ''a.dmg'' failing_process ((), [])) = Some ''customize failed''
   \<and> map fst (snd (snd (tmpMount env_detach_busy ''a.dmg'' failing_process ((), []))))
       = [MkdirTemp '''' ''*-zapp-dmg'', Attach ''a.dmg'' ''/tmp/1-zapp-dmg/mount'',
          Detach ''/tmp/1-zapp-dmg/mount'',
          Printf ''Warning: failed to detach DMG: %s\<newline>'' [''resource busy''],
          HdiutilInfo, Detach ''/Volumes/App'', RemoveAll ''/tmp/1-zapp-dmg'']"
proof -
  have h1: "do_call env_detach_busy (MkdirTemp '''' ''*-zapp-dmg'') ((), [])
              = (Done ''/tmp/1-zapp-dmg'',
                 ((), [(MkdirTemp '''' ''*-zapp-dmg'', Done ''/tmp/1-zapp-dmg'')]))"
    by (simp add: do_call_def env_detach_busy_def)
  have h2: "do_call env_detach_busy (Attach ''a.dmg'' (Join ''/tmp/1-zapp-dmg'' ''mount''))
              ((), [(MkdirTemp '''' ''*-zapp-dmg'', Done ''/tmp/1-zapp-dmg'')])
              = (Done [], ((), [(MkdirTemp '''' ''*-zapp-dmg'', Done ''/tmp/1-zapp-dmg''),
                                (Attach ''a.dmg'' (Join ''/tmp/1-zapp-dmg'' ''mount''), Done [])]))"
    by (simp add: do_call_def env_detach_busy_def)
  have r: "fst (tmpMount env_detach_busy ''a.dmg'' failing_process ((), []))
             = Some ''customize failed''"
    using tmpMount_returns_callback_result [OF h1 h2, of failing_process]
    by (simp add: failing_process_def)
  have t: "map fst (snd (snd (tmpMount env_detach_busy ''a.dmg'' failing_process ((), []))))
       = [MkdirTemp '''' ''*-zapp-dmg'', Attach ''a.dmg'' ''/tmp/1-zapp-dmg/mount'',
          Detach ''/tmp/1-zapp-dmg/mount'',
          Printf ''Warning: failed to detach DMG: %s\<newline>'' [''resource busy''],
          HdiutilInfo, Detach ''/Volumes/App'', RemoveAll ''/tmp/1-zapp-dmg'']"
    by (simp add: tmpMount_def do_call_def do_call_ignored_def env_detach_busy_def
        failing_process_def Join_def detachDeferred_def forceDetachDMG_def Let_def
        SplitLines_def Fields_def isSpace_def HasPrefix_def)
  from r t show ?thesis by simp
qed

lemma do_call_ignored_trace:
  "\<exists>r. snd (do_call_ignored env c s) = snd s @ [(c, r)]"
  by (auto simp: do_call_ignored_def do_call_def split: prod.splits)

lemma do_call_ignored_calls:
  "map fst (snd (do_call_ignored env c s)) = map fst (snd s) @ [c]"
  by (auto simp: do_call_ignored_def do_call_def split: prod.splits)

lemma unixNano_calls: "unixNano env s = (t, s') \<Longrightarrow> map fst (snd s') = map fst (snd s) @ [UnixNano]"
  by (auto simp: unixNano_def do_call_def split: prod.splits reply.splits)

text \<open>
  C6. In \<open>createCompressedDMG\<close> with an icon or a background configured, when the
  intermediate image was created and \<open>Attach\<close> fails, the function returns the attach
  error and makes exactly six calls: the clock, the creation of the intermediate image,
  the temporary directory, the failed attach, and the two deferred removals. No call of
  the customization callback and no \<open>hdiutil convert\<close> is among them, so the final image
  is not produced.
\<close>

theorem createCompressedDMG_attach_failure_aborts:
  assumes cust: "Icon config \<noteq> [] \<or> Background config \<noteq> []"
    and now: "unixNano env s = (t, s0)"
    and create: "do_call env (HdiutilCreate (Title config) sourceDir UDRW
                   (tempName t (FileName config))) s0 = (Done x, s1)"
    and mk: "do_call env (MkdirTemp '''' ''*-zapp-dmg'') s1 = (Done tempDir, s2)"
    and attach: "do_call env (Attach (tempName t (FileName config)) (Join tempDir ''mount'')) s2
                   = (Failed e, s3)"
  shows "fst (createCompressedDMG env config sourceDir s) = Some (''failed to attach DMG: '' @ e)
     \<and> map fst (snd (snd (createCompressedDMG env config sourceDir s)))
         = map fst (snd s) @
           [UnixNano,
            HdiutilCreate (Title config) sourceDir UDRW (tempName t (FileName config)),
            MkdirTemp '''' ''*-zapp-dmg'',
            Attach (tempName t (FileName config)) (Join tempDir ''mount''),
            RemoveAll tempDir,
            Remove (tempName t (FileName config))]"
proof -
  let ?tmp = "tempName t (FileName config)"
  have m: "tmpMount env ?tmp (customizeCompressed env config) s1
             = (Some (''failed to attach DMG: '' @ e), do_call_ignored env (RemoveAll tempDir) s3)"
    using mk attach by (simp add: tmpMount_def Let_def)
  have cc: "customizeAndConvert env config ?tmp s1
             = (Some (''failed to attach DMG: '' @ e), do_call_ignored env (RemoveAll tempDir) s3)"
    using cust m by (auto simp: customizeAndConvert_def)
  have res: "createCompressedDMG env config sourceDir s
             = (Some (''failed to attach DMG: '' @ e),
                do_call_ignored env (Remove ?tmp) (do_call_ignored env (RemoveAll tempDir) s3))"
    using now create cc by (simp add: createCompressedDMG_def Let_def)
  have t0: "map fst (snd s0) = map fst (snd s) @ [UnixNano]"
    using now by (rule unixNano_calls)
  have t1: "map fst (snd s1) = map fst (snd s0) @ [HdiutilCreate (Title config) sourceDir UDRW ?tmp]"
    using do_call_trace [OF create] by simp
  have t2: "map fst (snd s2) = map fst (snd s1) @ [MkdirTemp '''' ''*-zapp-dmg'']"
    using do_call_trace [OF mk] by simp
  have t3: "map fst (snd s3) = map fst (snd s2) @ [Attach ?tmp (Join tempDir ''mount'')]"
    using do_call_trace [OF attach] by simp
  show ?thesis
    by (simp add: res do_call_ignored_calls t0 t1 t2 t3)
qed

theorem createCompressedDMG_attach_failure_aborts_witness:
  "fst (createCompressedDMG env_attach_fails config_icon ''stage'' ((), []))
     = Some ''failed to attach DMG: image not recognized''
   \<and> map fst (snd (snd (createCompressedDMG env_attach_fails config_icon ''stage'' ((), []))))
     = [UnixNano, HdiutilCreate ''App'' ''stage'' ''UDRW'' ''out/temp_1_App.dmg'',
        MkdirTemp '''' ''*-zapp-dmg'', Attach ''out/temp_1_App.dmg'' ''/tmp/1-zapp-dmg/mount'',
        RemoveAll ''/tmp/1-zapp-dmg'', Remove ''out/temp_1_App.dmg'']"
proof -
  have tn: "tempName ''1'' ''out/App.dmg'' = ''out/temp_1_App.dmg''"
    by (simp add: tempName_def Dir_of_def Base_def Join_def
        stripTrailingSlashes_def Let_def)
  have cust: "Icon config_icon \<noteq> [] \<or> Background config_icon \<noteq> []"
    by (simp add: config_icon_def)
  have now: "unixNano env_attach_fails ((), []) = (''1'', ((), [(UnixNano, Done ''1'')]))"
    by (simp add: unixNano_def do_call_def env_attach_fails_def)
  have create: "do_call env_attach_fails
      (HdiutilCreate (Title config_icon) ''stage'' UDRW (tempName ''1'' (FileName config_icon)))
      ((), [(UnixNano, Done ''1'')])
      = (Done [], ((), [(UnixNano, Done ''1''),
           (HdiutilCreate (Title config_icon) ''stage'' UDRW
              (tempName ''1'' (FileName config_icon)), Done [])]))"
    by (simp add: do_call_def env_attach_fails_def)
  have mk: "do_call env_attach_fails (MkdirTemp '''' ''*-zapp-dmg'')
      ((), [(UnixNano, Done ''1''),
           (HdiutilCreate (Title config_icon) ''stage'' UDRW
              (tempName ''1'' (FileName config_icon)), Done [])])
      = (Done ''/tmp/1-zapp-dmg'', ((), [(UnixNano, Done ''1''),
           (HdiutilCreate (Title config_icon) ''stage'' UDRW
              (tempName ''1'' (FileName config_icon)), Done []),
           (MkdirTemp '''' ''*-zapp-dmg'', Done ''/tmp/1-zapp-dmg'')]))"
    by (simp add: do_call_def env_attach_fails_def)
  have attach: "do_call env_attach_fails
      (Attach (tempName ''1'' (FileName config_icon)) (Join ''/tmp/1-zapp-dmg'' ''mount''))
      ((), [(UnixNano, Done ''1''),
           (HdiutilCreate (Title config_icon) ''stage'' UDRW
              (tempName ''1'' (FileName config_icon)), Done []),
           (MkdirTemp '''' ''*-zapp-dmg'', Done ''/tmp/1-zapp-dmg'')])
      = (Failed ''image not recognized'', ((), [(UnixNano, Done ''1''),
           (HdiutilCreate (Title config_icon) ''stage'' UDRW
              (tempName ''1'' (FileName config_icon)), Done []),
           (MkdirTemp '''' ''*-zapp-dmg'', Done ''/tmp/1-zapp-dmg''),
           (Attach (tempName ''1'' (FileName config_icon)) (Join ''/tmp/1-zapp-dmg'' ''mount''),
            Failed ''image not recognized'')]))"
    by (simp add: do_call_def env_attach_fails_def)
  show ?thesis
    using createCompressedDMG_attach_failure_aborts [OF cust now create mk attach]
    by (simp add: tn config_icon_def config_zero_def UDRW_def Join_def)
qed

text \<open>
  C10. When no item of the contents is of type \<open>Dir\<close> with a path ending in \<open>.app\<close>,
  \<open>CreateDMGLikeBash\<close> returns the error \<open>no .app directory found in contents\<close> and none
  of the calls it made creates or converts an image. When there is such an item, the first
  one in list order is the bundle found, and the writable image is created from its path.
\<close>

theorem CreateDMGLikeBash_needs_app_bundle:
  "(list_all (\<lambda>i. \<not> isAppItem i) (Contents config) \<longrightarrow>
      fst (CreateDMGLikeBash env fs config s) = Some ''no .app directory found in contents''
      \<and> emits (\<lambda>c. \<not> creates_image c) s (snd (CreateDMGLikeBash env fs config s)))
   \<and> (\<forall>pre item post.
         Contents config = pre @ item # post \<and> list_all (\<lambda>i. \<not> isAppItem i) pre \<and> isAppItem item \<longrightarrow>
         findMainApp (Contents config) = Path item
         \<and> (\<exists>tempDMG sizeMB r0.
               (HdiutilCreateWithSize (Title config) (Path item) UDRW tempDMG sizeMB, r0)
                 \<in> set (snd (snd (CreateDMGLikeBash env fs config s)))))"
proof (intro conjI impI allI)
  obtain totalSize s1 where sum: "sumDirItems env fs (Contents config) 0 s = (totalSize, s1)"
    by (cases "sumDirItems env fs (Contents config) 0 s")
  define s2 where "s2 = do_call_ignored env
      (Fprintf ''Creating DMG with size: %dMB\<newline>'' [Num (likeBashSizeMB totalSize)]) s1"
  define tempDMG where "tempDMG = Join (Dir_of (FileName (normalizeFileName config)))
      (''temp_'' @ Base (FileName (normalizeFileName config)))"
  {
    assume none: "list_all (\<lambda>i. \<not> isAppItem i) (Contents config)"
    then have f: "findMainApp (Contents config) = []" by (rule findMainApp_none)
    have res: "CreateDMGLikeBash env fs config s
                 = (Some ''no .app directory found in contents'',
                    do_call_ignored env (Remove tempDMG) s2)"
      using sum f by (simp add: CreateDMGLikeBash_def Let_def s2_def tempDMG_def)
    show "fst (CreateDMGLikeBash env fs config s) = Some ''no .app directory found in contents''"
      by (simp add: res)
    have e1: "emits (\<lambda>c. \<not> creates_image c) s s1"
      by (rule emits_mono [OF sumDirItems_emits [OF sum]]) (rule walk_call_not_create)
    have e2: "emits (\<lambda>c. \<not> creates_image c) s1 s2"
      unfolding s2_def by (rule emits_do_call_ignored) (simp add: creates_image_def)
    have e3: "emits (\<lambda>c. \<not> creates_image c) s2 (do_call_ignored env (Remove tempDMG) s2)"
      by (rule emits_do_call_ignored) (simp add: creates_image_def)
    show "emits (\<lambda>c. \<not> creates_image c) s (snd (CreateDMGLikeBash env fs config s))"
      using emits_trans [OF emits_trans [OF e1 e2] e3] by (simp add: res)
  }
  fix pre item post
  assume a: "Contents config = pre @ item # post \<and> list_all (\<lambda>i. \<not> isAppItem i) pre \<and> isAppItem item"
  then have f: "findMainApp (Contents config) = Path item"
    by (simp add: findMainApp_first)
  then show "findMainApp (Contents config) = Path item" .
  have ne: "Path item \<noteq> []" using a by (simp add: isAppItem_Path)
  define s3 where "s3 = do_call_ignored env
      (Fprintf ''Creating temporary DMG from %s\<newline>'' [Str (Path item)]) s2"
  obtain r s4 where b: "likeBash_build env (normalizeFileName config) tempDMG (Path item)
      (likeBashSizeMB totalSize) s3 = (r, s4)"
    by (cases "likeBash_build env (normalizeFileName config) tempDMG (Path item)
      (likeBashSizeMB totalSize) s3")
  have res: "CreateDMGLikeBash env fs config s = (r, do_call_ignored env (Remove tempDMG) s4)"
    using sum f ne b by (simp add: CreateDMGLikeBash_def Let_def s2_def s3_def tempDMG_def)
  from likeBash_build_first_call [OF b] obtain r0 where
    t: "take (Suc (length (snd s3))) (snd s4)
          = snd s3 @ [(HdiutilCreateWithSize (Title config) (Path item) UDRW tempDMG
                         (likeBashSizeMB totalSize), r0)]"
    by auto
  have "(HdiutilCreateWithSize (Title config) (Path item) UDRW tempDMG (likeBashSizeMB totalSize), r0)
          \<in> set (take (Suc (length (snd s3))) (snd s4))"
    by (simp add: t)
  then have "(HdiutilCreateWithSize (Title config) (Path item) UDRW tempDMG (likeBashSizeMB totalSize), r0)
          \<in> set (snd s4)"
    by (rule in_set_takeD)
  then have "(HdiutilCreateWithSize (Title config) (Path item) UDRW tempDMG (likeBashSizeMB totalSize), r0)
          \<in> set (snd (snd (CreateDMGLikeBash env fs config s)))"
    by (simp add: res do_call_ignored_snd)
  then show "\<exists>tempDMG sizeMB r0.
               (HdiutilCreateWithSize (Title config) (Path item) UDRW tempDMG sizeMB, r0)
                 \<in> set (snd (snd (CreateDMGLikeBash env fs config s)))"
    by blast
qed

theorem CreateDMGLikeBash_needs_app_bundle_witness:
  "fst (CreateDMGLikeBash env_ok fs_empty config_no_app ((), []))
     = Some ''no .app directory found in contents''
   \<and> emits (\<lambda>c. \<not> creates_image c) ((), [])
         (snd (CreateDMGLikeBash env_ok fs_empty config_no_app ((), [])))
   \<and> findMainApp (Contents config_two_apps) = ''A.app''
   \<and> (\<exists>tempDMG sizeMB r0.
         (HdiutilCreateWithSize ''App'' ''A.app'' UDRW tempDMG sizeMB, r0)
           \<in> set (snd (snd (CreateDMGLikeBash env_ok fs_empty config_two_apps ((), [])))))"
proof -
  have none: "list_all (\<lambda>i. \<not> isAppItem i) (Contents config_no_app)"
    by (simp add: config_no_app_def config_zero_def isAppItem_def File_def Dir_def Link_def)
  have two: "Contents config_two_apps
               = [\<lparr>X = 0, Y = 0, Type = File, Path = ''notes.txt''\<rparr>]
                 @ \<lparr>X = 0, Y = 0, Type = Dir, Path = ''A.app''\<rparr>
                 # [\<lparr>X = 0, Y = 0, Type = Dir, Path = ''B.app''\<rparr>]
             \<and> list_all (\<lambda>i. \<not> isAppItem i) [\<lparr>X = 0, Y = 0, Type = File, Path = ''notes.txt''\<rparr>]
             \<and> isAppItem \<lparr>X = 0, Y = 0, Type = Dir, Path = ''A.app''\<rparr>"
    by (simp add: config_two_apps_def config_zero_def isAppItem_def File_def Dir_def HasSuffix_def)
  have t: "Title config_two_apps = ''App''"
    by (simp add: config_two_apps_def)
  from CreateDMGLikeBash_needs_app_bundle [of config_no_app env_ok fs_empty "((), [])"] none
  have a: "fst (CreateDMGLikeBash env_ok fs_empty config_no_app ((), []))
             = Some ''no .app directory found in contents''
           \<and> emits (\<lambda>c. \<not> creates_image c) ((), [])
                 (snd (CreateDMGLikeBash env_ok fs_empty config_no_app ((), [])))"
    by blast
  from CreateDMGLikeBash_needs_app_bundle [of config_two_apps env_ok fs_empty "((), [])"] two
  have b: "findMainApp (Contents config_two_apps)
             = Path \<lparr>X = 0, Y = 0, Type = Dir, Path = ''A.app''\<rparr>
           \<and> (\<exists>tempDMG sizeMB r0.
                 (HdiutilCreateWithSize (Title config_two_apps)
                    (Path \<lparr>X = 0, Y = 0, Type = Dir, Path = ''A.app''\<rparr>) UDRW tempDMG sizeMB, r0)
                   \<in> set (snd (snd (CreateDMGLikeBash env_ok fs_empty config_two_apps ((), [])))))"
    by blast
  from a b show ?thesis by (simp add: t)
qed

subsection \<open>Normalization of the configuration\<close>

lemma normalizeFileName_suffix: "HasSuffix (FileName (normalizeFileName config)) ''.dmg''"
  by (auto simp: normalizeFileName_def Let_def HasSuffix_def)

lemma defaultFormat_set: "Format (defaultFormat config) \<noteq> []"
  by (simp add: defaultFormat_def UDZO_def)

lemma leanSizeMB_0: "leanSizeMB 0 = 100"
  by (simp add: leanSizeMB_def tdiv_def f64_mul_trunc_def)

text \<open>
  C2. The file name ends in \<open>.dmg\<close> and the format is set after the normalization that
  \<open>CreateDMG\<close> (without hard links), \<open>CreateDMGDirect\<close> and \<open>CreateDMGLikeBash\<close> apply (the two
  lemmas above). On the \<open>UseHardLinks\<close> path \<open>CreateDMG\<close> returns what
  \<open>createDMGWithSafeHardLinks\<close> returns, which holds no normalization: for a configuration
  with hard links, the title \<open>App\<close>, and file name and format unset, in an environment where
  every call succeeds, the build succeeds and the image is created with the empty file name
  and the empty format.
\<close>

theorem CreateDMG_hard_links_skip_normalization:
  "fst (CreateDMG env_ok fs_empty config_hard_links ''stage'' [] ((), [])) = None
   \<and> map fst (snd (snd (CreateDMG env_ok fs_empty config_hard_links ''stage'' [] ((), []))))
     = [MkdirTemp '''' ''*-zapp-dmg-safe'', DSStoreWrite ''/tmp/1-zapp-dmg/.DS_Store'',
        Lstat ''/tmp/1-zapp-dmg'', ReadDir ''/tmp/1-zapp-dmg'',
        HdiutilCreateWithSize ''App'' ''/tmp/1-zapp-dmg'' '''' '''' 100,
        RemoveAll ''/tmp/1-zapp-dmg'']"
  by (simp add: CreateDMG_def config_hard_links_def config_zero_def createDMGWithSafeHardLinks_def
      safeHardLinks_body_def do_call_def do_call_ignored_def env_ok_def fs_empty_def
      stageBackground_def calculateDirSize_def Walk_def leanSizeMB_0 Join_def
      UDZO_def UDBZ_def)

text \<open>
  C5. \<open>CreateDMG\<close> assigns the result of the customization of the finished image to \<open>err\<close>
  and returns \<open>nil\<close> without reading it: for a read-only image with a volume icon, in an
  environment where \<open>Attach\<close> fails, the trace holds the failed attach and the result is
  success.
\<close>

theorem CreateDMG_drops_customization_error:
  "fst (CreateDMG env_attach_fails fs_empty config_icon_udro ''stage'' [] ((), [])) = None
   \<and> (Attach ''out/App.dmg'' ''/tmp/1-zapp-dmg/mount'', Failed ''image not recognized'')
       \<in> set (snd (snd (CreateDMG env_attach_fails fs_empty config_icon_udro ''stage'' [] ((), []))))"
  by (simp add: CreateDMG_def CreateDMG_standard_def config_icon_udro_def config_zero_def
      setupSourceDirectory_def stageBackground_def createPlain_def
      normalizeFileName_def defaultFormat_def HasSuffix_def Let_def
      tmpMount_def setFileIcon_def setFileIcon_body_def copyFile_def
      do_call_def do_call_ignored_def env_attach_fails_def fs_empty_def Join_def Dir_of_def
      stripTrailingSlashes_def
      UDZO_def UDBZ_def UDRO_def UDRW_def)

text \<open>
  C3, as the specification states it: the capacity declared by \<open>CreateDMGLikeBash\<close> is the
  number of megabytes rounded up, times 1.5, clamped to 200..2000. For an application bundle
  whose only file has 200 MiB and one byte the code computes 300 (200 whole megabytes plus
  100), the specification's formula gives 301.5.
\<close>

theorem CreateDMGLikeBash_capacity_not_ceiling:
  "likeBashSizeMB (fst (sumDirItems env_ok fs_big_app (Contents config_big_app) 0 ((), []))) = 300
   \<and> spec_conservative_MB (int (dirItemsBytes fs_big_app (Contents config_big_app))) = 603 / 2
   \<and> real_of_int (likeBashSizeMB
          (fst (sumDirItems env_ok fs_big_app (Contents config_big_app) 0 ((), []))))
       \<noteq> spec_conservative_MB (int (dirItemsBytes fs_big_app (Contents config_big_app)))"
proof -
  have a: "likeBashSizeMB (fst (sumDirItems env_ok fs_big_app (Contents config_big_app) 0 ((), []))) = 300"
    by (simp add: big_app_total likeBashSizeMB_floor)
  have b: "spec_conservative_MB (int (dirItemsBytes fs_big_app (Contents config_big_app))) = 603 / 2"
    by (simp add: big_app_bytes spec_conservative_MB_def)
  show ?thesis by (simp add: a b)
qed

text \<open>
  C3, amended. When no \<open>Lstat\<close> and no \<open>ReadDir\<close> fails, the sizes of the entries that are
  not directories under the items of type \<open>Dir\<close> sum to less than \<open>2^63\<close> bytes, and an
  application bundle is found, the size computed by \<open>CreateDMGLikeBash\<close> is the number \<open>M\<close>
  of whole megabytes of that sum (rounded down) plus \<open>M div 2\<close>, clamped to 200..2000, and
  the writable image is created with that size. Items of type \<open>File\<close> or \<open>Link\<close> are not
  in the sum.
\<close>

theorem CreateDMGLikeBash_capacity:
  assumes ok: "walks_never_fail env"
    and bound: "int (dirItemsBytes fs (Contents config)) < 2 ^ 63"
    and app: "findMainApp (Contents config) \<noteq> []"
  shows "likeBashSizeMB (fst (sumDirItems env fs (Contents config) 0 s))
           = max 200 (min 2000 (int (dirItemsBytes fs (Contents config)) div 1048576
                                + int (dirItemsBytes fs (Contents config)) div 1048576 div 2))
     \<and> (\<exists>tempDMG r0.
          (HdiutilCreateWithSize (Title config) (findMainApp (Contents config)) UDRW tempDMG
             (max 200 (min 2000 (int (dirItemsBytes fs (Contents config)) div 1048576
                                 + int (dirItemsBytes fs (Contents config)) div 1048576 div 2))), r0)
            \<in> set (snd (snd (CreateDMGLikeBash env fs config s))))"
proof -
  let ?sz = "max 200 (min 2000 (int (dirItemsBytes fs (Contents config)) div 1048576
                                + int (dirItemsBytes fs (Contents config)) div 1048576 div 2))"
  obtain totalSize s1 where sum: "sumDirItems env fs (Contents config) 0 s = (totalSize, s1)"
    by (cases "sumDirItems env fs (Contents config) 0 s")
  have tot: "totalSize = int (dirItemsBytes fs (Contents config))"
    using sumDirItems_total [OF ok, of 0 fs "Contents config" s] bound sum by simp
  have sz: "likeBashSizeMB totalSize = ?sz"
    using bound by (simp add: tot likeBashSizeMB_floor)
  define tempDMG where "tempDMG = Join (Dir_of (FileName (normalizeFileName config)))
      (''temp_'' @ Base (FileName (normalizeFileName config)))"
  define s3 where "s3 = do_call_ignored env
      (Fprintf ''Creating temporary DMG from %s\<newline>'' [Str (findMainApp (Contents config))])
      (do_call_ignored env
        (Fprintf ''Creating DMG with size: %dMB\<newline>'' [Num (likeBashSizeMB totalSize)]) s1)"
  obtain r s4 where b: "likeBash_build env (normalizeFileName config) tempDMG
      (findMainApp (Contents config)) (likeBashSizeMB totalSize) s3 = (r, s4)"
    by (cases "likeBash_build env (normalizeFileName config) tempDMG
      (findMainApp (Contents config)) (likeBashSizeMB totalSize) s3")
  have res: "CreateDMGLikeBash env fs config s = (r, do_call_ignored env (Remove tempDMG) s4)"
    using sum app b by (simp add: CreateDMGLikeBash_def Let_def s3_def tempDMG_def)
  from likeBash_build_first_call [OF b] obtain r0 where
    t: "take (Suc (length (snd s3))) (snd s4)
          = snd s3 @ [(HdiutilCreateWithSize (Title config) (findMainApp (Contents config)) UDRW
                         tempDMG (likeBashSizeMB totalSize), r0)]"
    by auto
  have "(HdiutilCreateWithSize (Title config) (findMainApp (Contents config)) UDRW tempDMG ?sz, r0)
          \<in> set (take (Suc (length (snd s3))) (snd s4))"
    by (simp add: t sz)
  then have "(HdiutilCreateWithSize (Title config) (findMainApp (Contents config)) UDRW tempDMG ?sz, r0)
          \<in> set (snd s4)"
    by (rule in_set_takeD)
  then have "(HdiutilCreateWithSize (Title config) (findMainApp (Contents config)) UDRW tempDMG ?sz, r0)
          \<in> set (snd (snd (CreateDMGLikeBash env fs config s)))"
    by (simp add: res do_call_ignored_snd)
  then have "\<exists>tempDMG r0.
          (HdiutilCreateWithSize (Title config) (findMainApp (Contents config)) UDRW tempDMG ?sz, r0)
            \<in> set (snd (snd (CreateDMGLikeBash env fs config s)))"
    by blast
  moreover have "likeBashSizeMB (fst (sumDirItems env fs (Contents config) 0 s)) = ?sz"
    using sum sz by simp
  ultimately show ?thesis by simp
qed

theorem CreateDMGLikeBash_capacity_witness:
  "likeBashSizeMB (fst (sumDirItems env_ok fs_big_app (Contents config_big_app) 0 ((), []))) = 300
   \<and> (\<exists>tempDMG r0.
          (HdiutilCreateWithSize ''App'' ''A.app'' UDRW tempDMG 300, r0)
            \<in> set (snd (snd (CreateDMGLikeBash env_ok fs_big_app config_big_app ((), [])))))"
proof -
  have bound: "int (dirItemsBytes fs_big_app (Contents config_big_app)) < 2 ^ 63"
    by (simp add: big_app_bytes)
  have f: "findMainApp (Contents config_big_app) = ''A.app''"
    by (simp add: config_big_app_def config_zero_def Dir_def HasSuffix_def)
  then have app: "findMainApp (Contents config_big_app) \<noteq> []" by simp
  have t: "Title config_big_app = ''App''" by (simp add: config_big_app_def)
  show ?thesis
    using CreateDMGLikeBash_capacity [OF env_ok_never_fails bound app, of "((), [])"]
    by (simp add: big_app_bytes f t)
qed

text \<open>
  C4, amended. In \<open>createDMGWithSafeHardLinks\<close>, when the temporary directory is made, the
  items are staged, the layout metadata and the background are written, no \<open>Lstat\<close> and no
  \<open>ReadDir\<close> fails, and the sizes of the entries of the staged tree that are not
  directories sum to less than \<open>2^63\<close> bytes: \<open>calculateDirSize\<close> returns the number \<open>M\<close> of
  whole megabytes of that sum (rounded down) plus \<open>M div 5\<close>, at least 100 and with no upper
  bound, and the image is created with exactly that size: the writable intermediate image
  for a compressed format, the final image for any other format.
\<close>

theorem createDMGWithSafeHardLinks_capacity:
  assumes ok: "walks_never_fail env"
    and mk: "do_call env (MkdirTemp '''' ''*-zapp-dmg-safe'') s = (Done safeTempDir, s1)"
    and stage: "stageLoop (safeStep env fs safeTempDir) (Contents config) [] s1 = ((None, wd1), s2)"
    and ds: "do_call env (DSStoreWrite (Join safeTempDir ''.DS_Store'')) s2 = (Done x, s3)"
    and bg: "stageBackground env config safeTempDir wd1 s3 = ((None, wd3), s4)"
    and bound: "int (fileBytes (fs safeTempDir)) < 2 ^ 63"
  shows "fst (calculateDirSize env safeTempDir (fs safeTempDir) s4)
           = Inr (max 100 (int (fileBytes (fs safeTempDir)) div 1048576
                           + int (fileBytes (fs safeTempDir)) div 1048576 div 5))
     \<and> (if Format config = UDZO \<or> Format config = UDBZ
         then \<exists>t r0.
                (HdiutilCreateWithSize (Title config) safeTempDir UDRW (tempName t (FileName config))
                   (max 100 (int (fileBytes (fs safeTempDir)) div 1048576
                             + int (fileBytes (fs safeTempDir)) div 1048576 div 5)), r0)
                  \<in> set (snd (snd (createDMGWithSafeHardLinks env fs config sourceDir s)))
         else \<exists>r0.
                (HdiutilCreateWithSize (Title config) safeTempDir (Format config) (FileName config)
                   (max 100 (int (fileBytes (fs safeTempDir)) div 1048576
                             + int (fileBytes (fs safeTempDir)) div 1048576 div 5)), r0)
                  \<in> set (snd (snd (createDMGWithSafeHardLinks env fs config sourceDir s))))"
proof -
  let ?sz = "max 100 (int (fileBytes (fs safeTempDir)) div 1048576
                      + int (fileBytes (fs safeTempDir)) div 1048576 div 5)"
  have cv: "fst (calculateDirSize env safeTempDir (fs safeTempDir) s4) = Inr ?sz"
    using ok bound by (rule calculateDirSize_value)
  then obtain s5 where calc: "calculateDirSize env safeTempDir (fs safeTempDir) s4 = (Inr ?sz, s5)"
    by (cases "calculateDirSize env safeTempDir (fs safeTempDir) s4") auto
  define build where "build =
     (if Format config = UDZO \<or> Format config = UDBZ then
        (case createCompressedDMGWithSize env config safeTempDir ?sz s5 of
           (Some e, s6) \<Rightarrow> (Some (''failed to create compressed dmg: '' @ e), s6)
         | (None, s6) \<Rightarrow> (None, s6))
      else
        (case do_call env (HdiutilCreateWithSize (Title config) safeTempDir (Format config)
                             (FileName config) ?sz) s5 of
           (Failed e, s6) \<Rightarrow> (Some (''failed to create dmg: '' @ e), s6)
         | (Done x5, s6) \<Rightarrow> (None, s6)))"
  obtain rb s6 where b: "build = (rb, s6)" by (cases build)
  define s7 where "s7 = (case rb of Some e \<Rightarrow> s6
      | None \<Rightarrow> (if Icon config \<noteq> [] then snd (setFileIcon env (FileName config) (Icon config) s6)
                 else s6))"
  have g67: "emits any_call s6 s7"
    by (cases rb) (simp_all add: s7_def emits_refl setFileIcon_snd_grows)
  have body: "snd (safeHardLinks_body env fs config safeTempDir s1) = s7"
  proof -
    have "safeHardLinks_body env fs config safeTempDir s1 =
            (case build of (Some e, s5) \<Rightarrow> (Some e, s5)
             | (None, s5) \<Rightarrow>
                 (None, if Icon config \<noteq> []
                        then snd (setFileIcon env (FileName config) (Icon config) s5) else s5))"
      unfolding safeHardLinks_body_def build_def
      by (simp only: stage ds bg calc prod.case option.case reply.case sum.case)
    then show ?thesis using b by (cases rb) (simp_all add: s7_def)
  qed
  have res: "snd (createDMGWithSafeHardLinks env fs config sourceDir s)
               = do_call_ignored env (RemoveAll safeTempDir) s7"
    using mk body
    by (cases "safeHardLinks_body env fs config safeTempDir s1")
       (simp add: createDMGWithSafeHardLinks_def)
  have keep: "\<And>c. c \<in> set (snd s6)
                \<Longrightarrow> c \<in> set (snd (snd (createDMGWithSafeHardLinks env fs config sourceDir s)))"
    using grows_mem [OF g67] by (simp add: res do_call_ignored_snd)
  show ?thesis
  proof (cases "Format config = UDZO \<or> Format config = UDBZ")
    case True
    have "snd (createCompressedDMGWithSize env config safeTempDir ?sz s5) = s6"
      using b True
      by (cases "createCompressedDMGWithSize env config safeTempDir ?sz s5")
         (auto simp: build_def split: option.splits)
    with createCompressedDMGWithSize_create_call [of config safeTempDir ?sz env s5]
    obtain t r0 where
      "(HdiutilCreateWithSize (Title config) safeTempDir UDRW (tempName t (FileName config)) ?sz, r0)
         \<in> set (snd s6)"
      by auto
    then have "\<exists>t r0.
        (HdiutilCreateWithSize (Title config) safeTempDir UDRW (tempName t (FileName config)) ?sz, r0)
          \<in> set (snd (snd (createDMGWithSafeHardLinks env fs config sourceDir s)))"
      using keep by blast
    then show ?thesis using True cv by simp
  next
    case False
    obtain r0 s6' where c: "do_call env (HdiutilCreateWithSize (Title config) safeTempDir
                               (Format config) (FileName config) ?sz) s5 = (r0, s6')"
      by (cases "do_call env (HdiutilCreateWithSize (Title config) safeTempDir
                               (Format config) (FileName config) ?sz) s5")
    have "s6' = s6" using b False c by (cases r0) (auto simp: build_def)
    with do_call_mem [OF c]
    have "(HdiutilCreateWithSize (Title config) safeTempDir (Format config) (FileName config) ?sz, r0)
            \<in> set (snd s6)"
      by simp
    then have "\<exists>r0.
        (HdiutilCreateWithSize (Title config) safeTempDir (Format config) (FileName config) ?sz, r0)
          \<in> set (snd (snd (createDMGWithSafeHardLinks env fs config sourceDir s)))"
      using keep by blast
    then show ?thesis using False cv by simp
  qed
qed

theorem createDMGWithSafeHardLinks_capacity_witness:
  "fst (calculateDirSize env_ok ''/tmp/1-zapp-dmg'' (fs_staged ''/tmp/1-zapp-dmg'')
          ((), [(MkdirTemp '''' ''*-zapp-dmg-safe'', Done ''/tmp/1-zapp-dmg''),
                (OsLink ''notes.txt'' ''/tmp/1-zapp-dmg/notes.txt'', Done []),
                (DSStoreWrite ''/tmp/1-zapp-dmg/.DS_Store'', Done [])])) = Inr 120
   \<and> (\<exists>r0. (HdiutilCreateWithSize ''App'' ''/tmp/1-zapp-dmg'' ''UDRO'' ''out/App.dmg'' 120, r0)
          \<in> set (snd (snd (createDMGWithSafeHardLinks env_ok fs_staged config_safe ''stage'' ((), [])))))"
proof -
  let ?t1 = "[(MkdirTemp '''' ''*-zapp-dmg-safe'', Done ''/tmp/1-zapp-dmg'')]"
  let ?t2 = "?t1 @ [(OsLink ''notes.txt'' ''/tmp/1-zapp-dmg/notes.txt'', Done [])]"
  let ?t3 = "?t2 @ [(DSStoreWrite ''/tmp/1-zapp-dmg/.DS_Store'', Done [])]"
  let ?wd = "[(''notes.txt'', HardLinked ''notes.txt'')]"
  have mk: "do_call env_ok (MkdirTemp '''' ''*-zapp-dmg-safe'') ((), [])
              = (Done ''/tmp/1-zapp-dmg'', ((), ?t1))"
    by (simp add: do_call_def env_ok_def)
  have stage: "stageLoop (safeStep env_ok fs_staged ''/tmp/1-zapp-dmg'') (Contents config_safe) []
                 ((), ?t1) = ((None, ?wd), ((), ?t2))"
    by (simp add: config_safe_def config_zero_def safeStep_def do_call_def env_ok_def
        Join_def Base_def stripTrailingSlashes_def Let_def)
  have ds: "do_call env_ok (DSStoreWrite (Join ''/tmp/1-zapp-dmg'' ''.DS_Store'')) ((), ?t2)
              = (Done [], ((), ?t3))"
    by (simp add: do_call_def env_ok_def Join_def)
  have bg: "stageBackground env_ok config_safe ''/tmp/1-zapp-dmg'' ?wd ((), ?t3)
              = ((None, ?wd), ((), ?t3))"
    by (simp add: stageBackground_def config_safe_def config_zero_def)
  have bound: "int (fileBytes (fs_staged ''/tmp/1-zapp-dmg'')) < 2 ^ 63"
    by (simp add: fs_staged_def staged_big_bytes)
  have f: "Format config_safe \<noteq> UDZO \<and> Format config_safe \<noteq> UDBZ"
    by (simp add: config_safe_def UDZO_def UDBZ_def UDRO_def)
  show ?thesis
    using createDMGWithSafeHardLinks_capacity [OF env_ok_never_fails mk stage ds bg bound,
            of "''stage''"] f
    by (simp add: fs_staged_def staged_big_bytes config_safe_def UDRO_def)
qed

text \<open>
  C4, as the specification states it: the megabytes rounded up, times 1.2, at least 100.
  For a staged tree whose only file has 100 MiB and one byte the code returns 120 (100
  whole megabytes plus 20); the specification's formula gives 121.2, which is 120 neither
  rounded up nor rounded down.
\<close>

theorem calculateDirSize_capacity_not_ceiling:
  "fst (calculateDirSize env_ok ''/tmp/1-zapp-dmg'' staged_big ((), [])) = Inr 120
   \<and> spec_lean_MB (int (fileBytes staged_big)) = 606 / 5
   \<and> fst (calculateDirSize env_ok ''/tmp/1-zapp-dmg'' staged_big ((), []))
       \<noteq> Inr \<lceil>spec_lean_MB (int (fileBytes staged_big))\<rceil>
   \<and> fst (calculateDirSize env_ok ''/tmp/1-zapp-dmg'' staged_big ((), []))
       \<noteq> Inr \<lfloor>spec_lean_MB (int (fileBytes staged_big))\<rfloor>"
proof -
  have w: "Walk env_ok ''/tmp/1-zapp-dmg'' staged_big 0 ((), [])
             = ((None, 104857601),
                ((), [(Lstat ''/tmp/1-zapp-dmg'', Done []), (ReadDir ''/tmp/1-zapp-dmg'', Done []),
                      (Lstat ''/tmp/1-zapp-dmg/payload'', Done [])]))"
    by (simp add: Walk_def staged_big_def do_call_def env_ok_def Join_def wrap64_def)
  have a: "fst (calculateDirSize env_ok ''/tmp/1-zapp-dmg'' staged_big ((), [])) = Inr 120"
    by (simp add: calculateDirSize_def w leanSizeMB_floor)
  have b: "spec_lean_MB (int (fileBytes staged_big)) = 606 / 5"
    by (simp add: staged_big_bytes spec_lean_MB_def)
  have c: "\<lceil>606 / 5 :: real\<rceil> = 122" by (simp add: ceiling_eq_iff)
  have d: "\<lfloor>606 / 5 :: real\<rfloor> = 121" by (simp add: floor_eq_iff)
  show ?thesis by (simp add: a b c d)
qed





end
